theory Spec2Isabelle
  imports Complex_Main
begin

section \<open>Progress tracker (progress\_tracker.py)\<close>

text \<open>
  Python's unbounded integers are \<open>int\<close>. The floats of the source (timestamps read
  from \<open>time.time()\<close>, rates, percentages) are idealised as rationals. Every reading of
  the clock is an argument of the operation that takes it. Rendering (the console
  print and the callback of \<open>_notify_update\<close>) writes none of the fields below and is
  left out, and with it the back-pointer \<open>_parent_tracker\<close>, which only serves it.
\<close>

datatype ProgressMode = CONSOLE | CALLBACK | SILENT

datatype ProgressUnit = ITEMS | BYTES | PERCENT

datatype ProgressReport = ProgressReport
  (report_operation_id: string)
  (current: int)
  (total: int)
  (percentage: rat)
  (elapsed_time: rat)
  (eta: "rat option")
  (throughput: "rat option")
  (throughput_unit: string)
  (custom_message: string)
  (sub_operations: "(string \<times> ProgressReport) list")

record tracker_fields =
  operation_id :: string
  total_items :: int
  mode :: ProgressMode
  update_interval :: rat
  unit_of :: ProgressUnit
  p_current_item :: int
  p_start_time :: "rat option"
  p_last_update_time :: rat
  p_custom_message :: string
  p_is_finished :: bool
  p_throughput_samples :: "(rat \<times> int) list"

text \<open>A tracker owns its sub-trackers: a dict from sub-operation id to tracker, in
  insertion order.\<close>

datatype ProgressTracker = Tracker (tstate: tracker_fields)
  (p_sub_trackers: "(string \<times> ProgressTracker) list")

definition max_samples :: nat where
  "max_samples = 10"

definition new_tracker ::
  "string \<Rightarrow> int \<Rightarrow> ProgressMode \<Rightarrow> rat \<Rightarrow> ProgressUnit \<Rightarrow> ProgressTracker" where
  "new_tracker oid n m iv u =
     Tracker \<lparr> operation_id = oid, total_items = n, mode = m, update_interval = iv,
       unit_of = u, p_current_item = 0, p_start_time = None, p_last_update_time = 0,
       p_custom_message = [], p_is_finished = False, p_throughput_samples = [] \<rparr> []"

text \<open>\<open>start()\<close>, with \<open>now\<close> the reading of \<open>time.time()\<close>.\<close>

definition start_fields :: "rat \<Rightarrow> tracker_fields \<Rightarrow> tracker_fields" where
  "start_fields now s =
     (if p_start_time s \<noteq> None then s
      else s\<lparr> p_start_time := Some now, p_last_update_time := now,
               p_throughput_samples := [(now, 0)] \<rparr>)"

definition start :: "rat \<Rightarrow> ProgressTracker \<Rightarrow> ProgressTracker" where
  "start now t = Tracker (start_fields now (tstate t)) (p_sub_trackers t)"

text \<open>The tail shared by \<open>update\<close> and \<open>set_current\<close>: append the sample, drop the
  oldest one beyond \<open>_max_samples\<close>, and note the time of a due display update.\<close>

definition record_sample :: "rat \<Rightarrow> tracker_fields \<Rightarrow> tracker_fields" where
  "record_sample current_time s =
     (let samples = p_throughput_samples s @ [(current_time, p_current_item s)];
          samples' = (if length samples > max_samples then tl samples else samples);
          s' = s\<lparr> p_throughput_samples := samples' \<rparr>
      in if current_time - p_last_update_time s' \<ge> update_interval s'
         then s'\<lparr> p_last_update_time := current_time \<rparr> else s')"

text \<open>\<open>update(items_processed, custom_message)\<close>: \<open>t0\<close> is the clock reading of the
  implicit \<open>start()\<close> (used only when the tracker was not started), \<open>current_time\<close> the
  reading taken afterwards.\<close>

definition update_fields :: "rat \<Rightarrow> rat \<Rightarrow> int \<Rightarrow> string \<Rightarrow> tracker_fields \<Rightarrow> tracker_fields" where
  "update_fields t0 current_time items_processed msg s0 =
     (let s1 = (if p_start_time s0 = None then start_fields t0 s0 else s0);
          s2 = s1\<lparr> p_current_item := min (p_current_item s1 + items_processed) (total_items s1) \<rparr>;
          s3 = (if msg \<noteq> [] then s2\<lparr> p_custom_message := msg \<rparr> else s2)
      in record_sample current_time s3)"

definition update :: "rat \<Rightarrow> rat \<Rightarrow> int \<Rightarrow> string \<Rightarrow> ProgressTracker \<Rightarrow> ProgressTracker" where
  "update t0 current_time items_processed msg t =
     Tracker (update_fields t0 current_time items_processed msg (tstate t)) (p_sub_trackers t)"

definition set_current_fields :: "rat \<Rightarrow> rat \<Rightarrow> int \<Rightarrow> string \<Rightarrow> tracker_fields \<Rightarrow> tracker_fields" where
  "set_current_fields t0 current_time current_item msg s0 =
     (let s1 = (if p_start_time s0 = None then start_fields t0 s0 else s0);
          s2 = s1\<lparr> p_current_item := min (max 0 current_item) (total_items s1) \<rparr>;
          s3 = (if msg \<noteq> [] then s2\<lparr> p_custom_message := msg \<rparr> else s2)
      in record_sample current_time s3)"

definition set_current :: "rat \<Rightarrow> rat \<Rightarrow> int \<Rightarrow> string \<Rightarrow> ProgressTracker \<Rightarrow> ProgressTracker" where
  "set_current t0 current_time current_item msg t =
     Tracker (set_current_fields t0 current_time current_item msg (tstate t)) (p_sub_trackers t)"



text \<open>\<open>d[k] = v\<close> on an insertion-ordered dict.\<close>

fun dict_set :: "'k \<Rightarrow> 'v \<Rightarrow> ('k \<times> 'v) list \<Rightarrow> ('k \<times> 'v) list" where
  "dict_set k v [] = [(k, v)]"
| "dict_set k v ((k', v') # kvs) =
     (if k = k' then (k, v) # kvs else (k', v') # dict_set k v kvs)"



text \<open>\<open>xs[-n:]\<close>\<close>

definition lastn :: "nat \<Rightarrow> 'a list \<Rightarrow> 'a list" where
  "lastn n xs = drop (length xs - n) xs"

definition calculate_eta :: "tracker_fields \<Rightarrow> rat option" where
  "calculate_eta s =
     (if length (p_throughput_samples s) < 2 \<or> p_current_item s = 0 then None
      else let recent_samples = lastn 3 (p_throughput_samples s) in
        if length recent_samples < 2 then None
        else let time_diff = fst (last recent_samples) - fst (hd recent_samples);
                 items_diff = snd (last recent_samples) - snd (hd recent_samples) in
          if time_diff \<le> 0 \<or> items_diff \<le> 0 then None
          else let items_per_second = of_int items_diff / time_diff;
                   remaining_items = total_items s - p_current_item s in
            if items_per_second > 0 then Some (of_int remaining_items / items_per_second)
            else None)"

definition get_throughput_unit :: "tracker_fields \<Rightarrow> string" where
  "get_throughput_unit s =
     (if unit_of s = BYTES then ''bytes/sec''
      else if unit_of s = ITEMS then ''items/sec''
      else ''units/sec'')"

definition calculate_throughput :: "tracker_fields \<Rightarrow> rat option \<times> string" where
  "calculate_throughput s =
     (if length (p_throughput_samples s) < 2 then (None, get_throughput_unit s)
      else let recent_samples = lastn 3 (p_throughput_samples s) in
        if length recent_samples < 2 then (None, get_throughput_unit s)
        else let time_diff = fst (last recent_samples) - fst (hd recent_samples);
                 items_diff = snd (last recent_samples) - snd (hd recent_samples) in
          if time_diff \<le> 0 then (None, get_throughput_unit s)
          else (Some (of_int items_diff / time_diff), get_throughput_unit s))"

text \<open>\<open>get_report()\<close>; \<open>now\<close> is the reading of the clock (one reading stands for those
  of the nested calls).\<close>

fun get_report :: "rat \<Rightarrow> ProgressTracker \<Rightarrow> ProgressReport" where
  "get_report now (Tracker s subs) =
     (let elapsed = (case p_start_time s of None \<Rightarrow> 0 | Some st \<Rightarrow> now - st);
          pct = (if total_items s > 0
                 then of_int (p_current_item s) / of_int (total_items s) * 100 else 0);
          e = calculate_eta s;
          tp = calculate_throughput s
      in ProgressReport (operation_id s) (p_current_item s) (total_items s) pct elapsed
           e (fst tp) (snd tp) (p_custom_message s)
           (map (\<lambda>kv. (fst kv, get_report now (snd kv))) subs))"

text \<open>The rate the specification describes: the slope between two samples, undefined
  when no time has passed between them.\<close>

definition two_point_rate :: "rat \<times> int \<Rightarrow> rat \<times> int \<Rightarrow> rat option" where
  "two_point_rate a b =
     (if fst b - fst a \<le> 0 then None
      else Some (of_int (snd b - snd a) / (fst b - fst a)))"

text \<open>The sample the rate starts from: the oldest of the last three (or of both, when
  there are only two).\<close>

definition rate_base :: "(rat \<times> int) list \<Rightarrow> rat \<times> int" where
  "rate_base ss = ss ! (length ss - min 3 (length ss))"

text \<open>A tracker of 100 items, started at time 0 and updated at times 1, 2, 3 and 4.\<close>

definition example_tracker :: ProgressTracker where
  "example_tracker =
     update 0 4 1 [] (update 0 3 1 [] (update 0 2 10 [] (update 0 1 10 []
       (start 0 (new_tracker ''op'' 100 SILENT (1 / 10) ITEMS)))))"

section \<open>Comparison engine (comparison\_engine.py)\<close>

text \<open>
  Paths are strings. What the operating system and the Python library answer is a
  parameter of the model (\<open>os_env\<close>): the directory listing, \<open>stat\<close>, the file type
  tests, the bytes of a file, SHA-256, \<open>fnmatch\<close> and the text Python prints for a
  number. A call that can raise returns \<open>Inl\<close> with the exception's message.
  Modification times are rationals. The worker pool is sequential here: the pairs are
  compared and their results collected in the order of the source dict (Python leaves
  the order of a set and of \<open>as_completed\<close> open; no property below depends on it).
  A thread pool that cannot start its threads is outside the model.
\<close>

datatype ComparisonMode = QUICK | FULL | METADATA_ONLY | CHECKSUM_ONLY

datatype DifferenceType =
  MISSING_SOURCE | MISSING_TARGET | SIZE_MISMATCH | CONTENT_MISMATCH
  | METADATA_MISMATCH | PERMISSION_MISMATCH | TIMESTAMP_MISMATCH | TYPE_MISMATCH

record stat_result =
  st_size :: int
  st_mtime :: rat
  st_mode :: int

record os_env =
  path_exists :: "string \<Rightarrow> bool"
  rglob :: "string \<Rightarrow> string + string list"
  stat :: "string \<Rightarrow> string + stat_result"
  is_file :: "string \<Rightarrow> bool"
  is_dir :: "string \<Rightarrow> bool"
  is_symlink :: "string \<Rightarrow> bool"
  read_bytes :: "string \<Rightarrow> string + string"
  sha256_hexdigest :: "string \<Rightarrow> string"
  fnmatch :: "string \<Rightarrow> string \<Rightarrow> bool"
  str_int :: "int \<Rightarrow> string"
  str_float :: "rat \<Rightarrow> string"
  oct :: "int \<Rightarrow> string"

record FileMetadata =
  m_path :: string
  m_size :: int
  m_mtime :: rat
  m_mode :: int
  m_is_file :: bool
  m_is_dir :: bool
  m_is_symlink :: bool
  m_checksum :: "string option"

record FileDifference =
  d_path :: string
  difference_type :: DifferenceType
  source_metadata :: "FileMetadata option"
  target_metadata :: "FileMetadata option"
  details :: string

record ComparisonResult =
  source_path :: string
  target_path :: string
  comparison_mode :: ComparisonMode
  total_files_processed :: int
  total_directories_processed :: int
  files_identical :: int
  files_different :: int
  files_missing_source :: int
  files_missing_target :: int
  differences :: "FileDifference list"
  processing_time :: rat
  total_bytes_processed :: int
  excluded_patterns :: "string list"
  errors :: "string list"

text \<open>Python's \<open>a / b\<close> on integers raises on a zero divisor.\<close>

definition truediv :: "int \<Rightarrow> int \<Rightarrow> string + rat" where
  "truediv a b = (if b = 0 then Inl ''division by zero'' else Inr (of_int a / of_int b))"

definition success_rate :: "ComparisonResult \<Rightarrow> string + rat" where
  "success_rate r =
     (if total_files_processed r = 0 then Inr 100
      else case truediv (files_identical r) (total_files_processed r) of
             Inl e \<Rightarrow> Inl e
           | Inr q \<Rightarrow> Inr (q * 100))"

definition has_differences :: "ComparisonResult \<Rightarrow> bool" where
  "has_differences r = (length (differences r) > 0)"

record ComparisonEngine =
  max_workers :: int
  chunk_size :: int
  exclude_patterns :: "string list"
  follow_symlinks :: bool
  case_sensitive :: bool

text \<open>\<open>ComparisonMode(value)\<close>\<close>

definition parse_mode :: "string \<Rightarrow> string + ComparisonMode" where
  "parse_mode v =
     (if v = ''quick'' then Inr QUICK
      else if v = ''full'' then Inr FULL
      else if v = ''metadata_only'' then Inr METADATA_ONLY
      else if v = ''checksum_only'' then Inr CHECKSUM_ONLY
      else Inl ([CHR 0x27] @ v @ [CHR 0x27] @ '' is not a valid ComparisonMode''))"

text \<open>\<open>str.lower()\<close>, on ASCII letters.\<close>

definition lower_char :: "char \<Rightarrow> char" where
  "lower_char c =
     (let n = (of_char c :: nat) in if 65 \<le> n \<and> n \<le> 90 then char_of (n + 32) else c)"

definition lower :: "string \<Rightarrow> string" where
  "lower s = map lower_char s"

text \<open>\<open>s.split(sep)\<close> for a one-character separator, and \<open>sep.join(xs)\<close>.\<close>

fun split_sep :: "char \<Rightarrow> string \<Rightarrow> string list" where
  "split_sep c [] = [[]]"
| "split_sep c (x # xs) =
     (if x = c then [] # split_sep c xs
      else case split_sep c xs of
             w # ws \<Rightarrow> (x # w) # ws
           | [] \<Rightarrow> [[x]])"

fun join_sep :: "string \<Rightarrow> string list \<Rightarrow> string" where
  "join_sep sep [] = []"
| "join_sep sep [x] = x"
| "join_sep sep (x # y # ys) = x @ sep @ join_sep sep (y # ys)"

definition startswith :: "string \<Rightarrow> string \<Rightarrow> bool" where
  "startswith s p = (take (length p) s = p)"

definition endswith :: "string \<Rightarrow> string \<Rightarrow> bool" where
  "endswith s p = (length p \<le> length s \<and> drop (length s - length p) s = p)"

text \<open>The parts of a POSIX \<open>PurePath\<close>: the root (\<open>/\<close>, or \<open>//\<close> for exactly two
  leading slashes), then the components that are neither empty nor \<open>.\<close>.\<close>

definition path_parts :: "string \<Rightarrow> string list" where
  "path_parts p =
     (if startswith p ''//'' \<and> \<not> startswith p ''///'' then [''//'']
      else if startswith p ''/'' then [''/'']
      else [])
     @ filter (\<lambda>c. c \<noteq> [] \<and> c \<noteq> ''.'') (split_sep (CHR ''/'') p)"

text \<open>\<open>str(p.relative_to(root))\<close>; \<open>Inl\<close> is the \<open>ValueError\<close>.\<close>

definition relative_to :: "string \<Rightarrow> string \<Rightarrow> string + string" where
  "relative_to p root_dir =
     (let pp = path_parts p; rp = path_parts root_dir
      in if take (length rp) pp = rp
         then (let rel = drop (length rp) pp
               in Inr (if rel = [] then ''.'' else join_sep ''/'' rel))
         else Inl (p @ '' is not in the subpath of '' @ root_dir))"

definition calculate_checksum :: "os_env \<Rightarrow> string \<Rightarrow> string + string" where
  "calculate_checksum env file_path =
     (case read_bytes env file_path of
        Inl e \<Rightarrow> Inl (''Cannot calculate checksum for '' @ file_path @ '': '' @ e)
      | Inr bytes \<Rightarrow> Inr (sha256_hexdigest env bytes))"

definition get_file_metadata :: "os_env \<Rightarrow> string \<Rightarrow> bool \<Rightarrow> string + FileMetadata" where
  "get_file_metadata env file_path include_checksum =
     (case stat env file_path of
        Inl e \<Rightarrow> Inl e
      | Inr stat_result \<Rightarrow>
          (let metadata = \<lparr> m_path = file_path, m_size = st_size stat_result,
                 m_mtime = st_mtime stat_result, m_mode = st_mode stat_result,
                 m_is_file = is_file env file_path, m_is_dir = is_dir env file_path,
                 m_is_symlink = is_symlink env file_path, m_checksum = None \<rparr>
           in if include_checksum \<and> m_is_file metadata \<and> \<not> m_is_symlink metadata
              then (case calculate_checksum env file_path of
                      Inl e \<Rightarrow> Inl e
                    | Inr c \<Rightarrow> Inr (metadata\<lparr> m_checksum := Some c \<rparr>))
              else Inr metadata))"

fun should_exclude_loop :: "os_env \<Rightarrow> bool \<Rightarrow> string \<Rightarrow> string list \<Rightarrow> bool" where
  "should_exclude_loop env cs path_str [] = False"
| "should_exclude_loop env cs path_str (pattern # patterns) =
     (let pattern' = (if \<not> cs then lower pattern else pattern)
      in if fnmatch env path_str pattern' then True
         else should_exclude_loop env cs path_str patterns)"

definition should_exclude :: "os_env \<Rightarrow> ComparisonEngine \<Rightarrow> string \<Rightarrow> bool" where
  "should_exclude env eng path =
     (let path_str = (if \<not> case_sensitive eng then lower path else path)
      in should_exclude_loop env (case_sensitive eng) path_str (exclude_patterns eng))"

fun collect_loop ::
  "os_env \<Rightarrow> ComparisonEngine \<Rightarrow> string \<Rightarrow> string list \<Rightarrow> (string \<times> string) list
     \<Rightarrow> (string \<times> string) list" where
  "collect_loop env eng root_path [] files = files"
| "collect_loop env eng root_path (item # items) files =
     (if should_exclude env eng item then collect_loop env eng root_path items files
      else if \<not> follow_symlinks eng \<and> is_symlink env item
        then collect_loop env eng root_path items files
      else case relative_to item root_path of
             Inl e \<Rightarrow> collect_loop env eng root_path items files
           | Inr relative_path \<Rightarrow>
               (let key = (if \<not> case_sensitive eng then lower relative_path else relative_path)
                in collect_loop env eng root_path items (dict_set key item files)))"

definition collect_files ::
  "os_env \<Rightarrow> ComparisonEngine \<Rightarrow> string \<Rightarrow> string + (string \<times> string) list" where
  "collect_files env eng root_path =
     (case rglob env root_path of
        Inl e \<Rightarrow> Inl e
      | Inr items \<Rightarrow> Inr (collect_loop env eng root_path items []))"

text \<open>\<open>stat.S_IMODE(mode)\<close> is \<open>mode & 0o7777\<close>.\<close>

definition S_IMODE :: "int \<Rightarrow> int" where
  "S_IMODE m = m mod 4096"

definition file_or_dir :: "bool \<Rightarrow> string" where
  "file_or_dir b = (if b then ''file'' else ''dir'')"

definition truthy :: "string option \<Rightarrow> bool" where
  "truthy c = (case c of None \<Rightarrow> False | Some s \<Rightarrow> s \<noteq> [])"

definition compare_metadata ::
  "os_env \<Rightarrow> FileMetadata \<Rightarrow> FileMetadata \<Rightarrow> ComparisonMode \<Rightarrow> FileDifference list" where
  "compare_metadata env sm tm cmode =
     (if m_is_file sm \<noteq> m_is_file tm \<or> m_is_dir sm \<noteq> m_is_dir tm
      then [\<lparr> d_path = m_path sm, difference_type = TYPE_MISMATCH,
               source_metadata = Some sm, target_metadata = Some tm,
               details = ''Type mismatch: source='' @ file_or_dir (m_is_file sm)
                 @ '', target='' @ file_or_dir (m_is_file tm) \<rparr>]
      else
        (if m_size sm \<noteq> m_size tm
         then [\<lparr> d_path = m_path sm, difference_type = SIZE_MISMATCH,
                  source_metadata = Some sm, target_metadata = Some tm,
                  details = ''Size mismatch: source='' @ str_int env (m_size sm)
                    @ '', target='' @ str_int env (m_size tm) \<rparr>]
         else [])
        @ (if (cmode = FULL \<or> cmode = CHECKSUM_ONLY) \<and> m_is_file sm \<and> m_is_file tm
              \<and> truthy (m_checksum sm) \<and> truthy (m_checksum tm)
              \<and> m_checksum sm \<noteq> m_checksum tm
           then [\<lparr> d_path = m_path sm, difference_type = CONTENT_MISMATCH,
                    source_metadata = Some sm, target_metadata = Some tm,
                    details = ''Content mismatch: checksums differ'' \<rparr>]
           else [])
        @ (if cmode = FULL
           then (if S_IMODE (m_mode sm) \<noteq> S_IMODE (m_mode tm)
                 then [\<lparr> d_path = m_path sm, difference_type = PERMISSION_MISMATCH,
                          source_metadata = Some sm, target_metadata = Some tm,
                          details = ''Permission mismatch: source='' @ oct env (S_IMODE (m_mode sm))
                            @ '', target='' @ oct env (S_IMODE (m_mode tm)) \<rparr>]
                 else [])
                @ (if \<bar>m_mtime sm - m_mtime tm\<bar> > 1
                   then [\<lparr> d_path = m_path sm, difference_type = TIMESTAMP_MISMATCH,
                            source_metadata = Some sm, target_metadata = Some tm,
                            details = ''Timestamp mismatch: source='' @ str_float env (m_mtime sm)
                              @ '', target='' @ str_float env (m_mtime tm) \<rparr>]
                   else [])
           else []))"

text \<open>The difference \<open>compare_file_pair\<close> appends when the comparison raised.\<close>

definition comparison_error :: "string \<Rightarrow> string \<Rightarrow> FileDifference" where
  "comparison_error relative_path e =
     \<lparr> d_path = relative_path, difference_type = CONTENT_MISMATCH,
       source_metadata = None, target_metadata = None,
       details = ''Comparison error: '' @ e \<rparr>"

text \<open>The \<open>try\<close> block of \<open>compare_file_pair\<close>: \<open>Inl\<close> is the exception it raises.\<close>

definition compare_file_pair_body ::
  "os_env \<Rightarrow> string \<Rightarrow> string \<Rightarrow> ComparisonMode \<Rightarrow> string + (FileDifference list \<times> int)" where
  "compare_file_pair_body env source_file target_file cmode =
     (let include_checksum = (cmode = FULL \<or> cmode = CHECKSUM_ONLY)
      in case get_file_metadata env source_file include_checksum of
           Inl e \<Rightarrow> Inl e
         | Inr sm \<Rightarrow>
             (case get_file_metadata env target_file include_checksum of
                Inl e \<Rightarrow> Inl e
              | Inr tm \<Rightarrow>
                  (if cmode \<noteq> QUICK \<or> m_size sm \<noteq> m_size tm
                   then Inr (compare_metadata env sm tm cmode, m_size sm)
                   else Inr ([], m_size sm))))"

text \<open>\<open>compare_file_pair\<close>: the handler turns the exception into one difference; the
  differences and the byte count are still empty and zero when it runs, since both are
  assigned only after the last call that can raise.\<close>

definition compare_file_pair ::
  "os_env \<Rightarrow> string \<Rightarrow> string \<Rightarrow> string \<Rightarrow> ComparisonMode \<Rightarrow> FileDifference list \<times> int" where
  "compare_file_pair env relative_path source_file target_file cmode =
     (case compare_file_pair_body env source_file target_file cmode of
        Inl e \<Rightarrow> ([comparison_error relative_path e], 0)
      | Inr res \<Rightarrow> res)"

definition dict_keys :: "('k \<times> 'v) list \<Rightarrow> 'k list" where
  "dict_keys d = map fst d"

text \<open>The common paths with both files, in the order of the source dict.\<close>

definition common_pairs ::
  "(string \<times> string) list \<Rightarrow> (string \<times> string) list \<Rightarrow> (string \<times> string \<times> string) list" where
  "common_pairs source_files target_files =
     List.map_filter
       (\<lambda>kv. case map_of target_files (fst kv) of
                None \<Rightarrow> None
              | Some target_file \<Rightarrow> Some (fst kv, snd kv, target_file))
       source_files"

definition missing_target_diff :: "string \<Rightarrow> FileDifference" where
  "missing_target_diff path =
     \<lparr> d_path = path, difference_type = MISSING_TARGET, source_metadata = None,
       target_metadata = None, details = ''File exists in source but not in target'' \<rparr>"

definition missing_source_diff :: "string \<Rightarrow> FileDifference" where
  "missing_source_diff path =
     \<lparr> d_path = path, difference_type = MISSING_SOURCE, source_metadata = None,
       target_metadata = None, details = ''File exists in target but not in source'' \<rparr>"

fun add_missing_target :: "string list \<Rightarrow> ComparisonResult \<Rightarrow> ComparisonResult" where
  "add_missing_target [] r = r"
| "add_missing_target (path # paths) r =
     add_missing_target paths
       (r\<lparr> differences := differences r @ [missing_target_diff path],
            files_missing_target := files_missing_target r + 1 \<rparr>)"

fun add_missing_source :: "string list \<Rightarrow> ComparisonResult \<Rightarrow> ComparisonResult" where
  "add_missing_source [] r = r"
| "add_missing_source (path # paths) r =
     add_missing_source paths
       (r\<lparr> differences := differences r @ [missing_source_diff path],
            files_missing_source := files_missing_source r + 1 \<rparr>)"

text \<open>Collecting the results of the tasks. \<open>compare_file_pair\<close> catches every exception
  itself, so \<open>future.result()\<close> returns and the handler around it never runs.\<close>

fun collect_results ::
  "os_env \<Rightarrow> ComparisonMode \<Rightarrow> (string \<times> string \<times> string) list \<Rightarrow> ComparisonResult
     \<Rightarrow> ComparisonResult" where
  "collect_results env cmode [] r = r"
| "collect_results env cmode ((relative_path, source_file, target_file) # futures) r =
     (let (diffs, bytes_processed) =
            compare_file_pair env relative_path source_file target_file cmode;
          r1 = r\<lparr> differences := differences r @ diffs,
                  total_bytes_processed := total_bytes_processed r + bytes_processed \<rparr>;
          r2 = (if diffs \<noteq> [] then r1\<lparr> files_different := files_different r1 + 1 \<rparr>
                else r1\<lparr> files_identical := files_identical r1 + 1 \<rparr>)
      in collect_results env cmode futures r2)"

definition comparison_failed :: "rat \<Rightarrow> rat \<Rightarrow> string \<Rightarrow> ComparisonResult \<Rightarrow> ComparisonResult" where
  "comparison_failed start_time end_time e r =
     r\<lparr> errors := errors r @ [''Comparison failed: '' @ e],
        processing_time := end_time - start_time \<rparr>"

definition initial_result ::
  "ComparisonEngine \<Rightarrow> string \<Rightarrow> string \<Rightarrow> ComparisonMode \<Rightarrow> ComparisonResult" where
  "initial_result eng src extracted cmode =
     \<lparr> source_path = src, target_path = extracted, comparison_mode = cmode,
       total_files_processed = 0, total_directories_processed = 0,
       files_identical = 0, files_different = 0, files_missing_source = 0,
       files_missing_target = 0, differences = [], processing_time = 0,
       total_bytes_processed = 0, excluded_patterns = exclude_patterns eng,
       errors = [] \<rparr>"

text \<open>The result after the two loops over the missing paths and the collection of the
  pair comparisons, before the final statistics.\<close>

definition compared ::
  "os_env \<Rightarrow> ComparisonEngine \<Rightarrow> string \<Rightarrow> string \<Rightarrow> ComparisonMode
     \<Rightarrow> (string \<times> string) list \<Rightarrow> (string \<times> string) list \<Rightarrow> ComparisonResult" where
  "compared env eng src extracted cmode source_files target_files =
     (let missing_in_target =
            filter (\<lambda>k. k \<notin> set (dict_keys target_files)) (dict_keys source_files);
          missing_in_source =
            filter (\<lambda>k. k \<notin> set (dict_keys source_files)) (dict_keys target_files);
          r1 = add_missing_target missing_in_target (initial_result eng src extracted cmode);
          r2 = add_missing_source missing_in_source r1
      in collect_results env cmode (common_pairs source_files target_files) r2)"

text \<open>\<open>content_comparison\<close>; \<open>start_time\<close> and \<open>end_time\<close> are the two readings of the
  clock. An invalid mode raises before the \<open>try\<close>, so it reaches the caller (\<open>Inl\<close>).\<close>

definition content_comparison ::
  "os_env \<Rightarrow> ComparisonEngine \<Rightarrow> rat \<Rightarrow> rat \<Rightarrow> string \<Rightarrow> string \<Rightarrow> string
     \<Rightarrow> string + ComparisonResult" where
  "content_comparison env eng start_time end_time src extracted mode_str =
     (case parse_mode mode_str of
        Inl e \<Rightarrow> Inl e
      | Inr cmode \<Rightarrow>
          (let result = initial_result eng src extracted cmode
           in if \<not> path_exists env src
              then Inr (comparison_failed start_time end_time
                     (''Source path does not exist: '' @ src) result)
              else if \<not> path_exists env extracted
              then Inr (comparison_failed start_time end_time
                     (''Target path does not exist: '' @ extracted) result)
              else case collect_files env eng src of
                Inl e \<Rightarrow> Inr (comparison_failed start_time end_time e result)
              | Inr source_files \<Rightarrow>
                 (case collect_files env eng extracted of
                    Inl e \<Rightarrow> Inr (comparison_failed start_time end_time e result)
                  | Inr target_files \<Rightarrow>
                     (let all_paths = dict_keys source_files @
                            filter (\<lambda>k. k \<notin> set (dict_keys source_files)) (dict_keys target_files);
                          r3 = compared env eng src extracted cmode source_files target_files;
                          r4 = r3\<lparr> total_files_processed := int (length all_paths),
                                  total_directories_processed :=
                                    int (length (filter (is_dir env) (map snd source_files)))
                                    + int (length (filter (is_dir env) (map snd target_files))) \<rparr>
                      in Inr (r4\<lparr> processing_time := end_time - start_time \<rparr>)))))"

text \<open>The differences one pair contributes.\<close>

definition pair_diffs ::
  "os_env \<Rightarrow> ComparisonMode \<Rightarrow> string \<times> string \<times> string \<Rightarrow> FileDifference list" where
  "pair_diffs env cmode p =
     fst (compare_file_pair env (fst p) (fst (snd p)) (snd (snd p)) cmode)"

text \<open>Two trees \<open>/src\<close> and \<open>/tgt\<close>: \<open>a.txt\<close> and the directory \<open>d\<close> are in both,
  \<open>b.txt\<close> only in the source, \<open>c.txt\<close> only in the target; \<open>/src/a.txt\<close> cannot be
  opened for reading.\<close>

definition example_env :: os_env where
  "example_env =
     \<lparr> path_exists = (\<lambda>p. True),
       rglob = (\<lambda>p. Inr (if p = ''/src'' then [''/src/a.txt'', ''/src/b.txt'', ''/src/d'']
                         else if p = ''/tgt'' then [''/tgt/a.txt'', ''/tgt/c.txt'', ''/tgt/d'']
                         else [])),
       stat = (\<lambda>p. Inr \<lparr> st_size = 5, st_mtime = 10, st_mode = 420 \<rparr>),
       is_file = (\<lambda>p. endswith p ''.txt''),
       is_dir = (\<lambda>p. \<not> endswith p ''.txt''),
       is_symlink = (\<lambda>p. False),
       read_bytes = (\<lambda>p. if p = ''/src/a.txt'' then Inl ''Permission denied'' else Inr ''hello''),
       sha256_hexdigest = (\<lambda>b. ''2cf24dba'' @ b),
       fnmatch = (\<lambda>s p. s = p),
       str_int = (\<lambda>i. ''5''),
       str_float = (\<lambda>i. ''10.0''),
       oct = (\<lambda>i. ''0o644'') \<rparr>"

definition example_engine :: ComparisonEngine where
  "example_engine =
     \<lparr> max_workers = 4, chunk_size = 8192, exclude_patterns = [], follow_symlinks = False,
       case_sensitive = True \<rparr>"

text \<open>The results of comparing the example trees \<open>/src\<close> with \<open>/tgt\<close>, and \<open>/src\<close>
  with itself, in \<open>full\<close> mode from time 0 to time 1.\<close>

definition example_error :: FileDifference where
  "example_error = comparison_error ''a.txt''
     ''Cannot calculate checksum for /src/a.txt: Permission denied''"

definition example_result :: ComparisonResult where
  "example_result =
     \<lparr> source_path = ''/src'', target_path = ''/tgt'', comparison_mode = FULL,
        total_files_processed = 4, total_directories_processed = 2, files_identical = 1,
        files_different = 1, files_missing_source = 1, files_missing_target = 1,
        differences = [missing_target_diff ''b.txt'', missing_source_diff ''c.txt'', example_error],
        processing_time = 1, total_bytes_processed = 5, excluded_patterns = [], errors = [] \<rparr>"

definition example_self_result :: ComparisonResult where
  "example_self_result =
     \<lparr> source_path = ''/src'', target_path = ''/src'', comparison_mode = FULL,
        total_files_processed = 3, total_directories_processed = 2, files_identical = 2,
        files_different = 1, files_missing_source = 0, files_missing_target = 0,
        differences = [example_error],
        processing_time = 1, total_bytes_processed = 10, excluded_patterns = [], errors = [] \<rparr>"

section \<open>Extraction engine (extraction\_engine.py)\<close>

text \<open>
  What the operating system, \<open>tarfile\<close>, \<open>zipfile\<close> and \<open>shutil\<close> answer is a
  parameter (\<open>extract_env\<close>); a call that can raise returns the exception's message.
  An archive is the list of its members as the library lists them. The model records
  each call of the library's \<open>extract\<close> (the only place where bytes of a member are
  written) with the index and the name of the member; where the library then puts the
  bytes is its own business and not part of the model. The interruption flag is set by
  a signal handler at any moment: \<open>x_signalled\<close> says at which polls of the flag a
  signal has arrived. \<open>Path.resolve\<close> depends on the files present, so it takes the index
  of the member being validated. Paths are POSIX paths, each the string \<open>pathlib\<close>
  prints for it; member names and file contents are byte strings.
\<close>

definition CHUNK_SIZE :: int where
  "CHUNK_SIZE = 8192"

definition MAX_EXTRACT_SIZE :: int where
  "MAX_EXTRACT_SIZE = 10 * 1024 * 1024 * 1024"

definition SUPPORTED_FORMATS :: "(string \<times> string) list" where
  "SUPPORTED_FORMATS =
     [(''.tar'', ''tar''), (''.tar.gz'', ''tar.gz''), (''.tgz'', ''tar.gz''),
      (''.tar.bz2'', ''tar.bz2''), (''.tbz2'', ''tar.bz2''), (''.tar.xz'', ''tar.xz''),
      (''.zip'', ''zip''), (''.snapshot'', ''qdrant'')]"

definition MAGIC_BYTES :: "(string \<times> string) list" where
  "MAGIC_BYTES =
     [([CHR 0x1f, CHR 0x8b], ''gzip''),
      ([CHR ''P'', CHR ''K'', CHR 0x03, CHR 0x04], ''zip''),
      ([CHR ''P'', CHR ''K'', CHR 0x05, CHR 0x06], ''zip''),
      ([CHR ''P'', CHR ''K'', CHR 0x07, CHR 0x08], ''zip''),
      (''BZh'', ''bzip2''),
      ([CHR 0xfd, CHR ''7'', CHR ''z'', CHR ''X'', CHR ''Z'', CHR 0x00], ''xz'')]"

record ExtractionMetadata =
  total_files :: int
  total_size :: int
  extracted_files :: int
  extracted_size :: int
  start_time :: rat
  end_time :: "rat option"
  md_errors :: "string list"
  md_warnings :: "string list"

record ExtractionResult =
  success :: bool
  extraction_path :: string
  metadata :: ExtractionMetadata
  format_detected :: string
  file_count :: int
  result_total_size :: int
  checksum :: "string option"
  error_message :: "string option"

datatype member_kind = RegularFile | Directory | SymbolicLink | OtherKind

record member =
  mname :: string
  msize :: int
  mkind :: member_kind

datatype poll = HashChunk nat | MemberBoundary nat

record extract_env =
  x_exists :: "string \<Rightarrow> bool"
  x_is_file :: "string \<Rightarrow> bool"
  x_read_header :: "string \<Rightarrow> string + string"
  x_read_chunks :: "string \<Rightarrow> string + (string list \<times> string option)"
  x_sha256 :: "string \<Rightarrow> string"
  x_mkdtemp :: "string option \<Rightarrow> string + string"
  x_chmod :: "string \<Rightarrow> string option"
  x_mkdir :: "string \<Rightarrow> string option"
  x_tar_open :: "string \<Rightarrow> string \<Rightarrow> string + member list"
  x_zip_open :: "string \<Rightarrow> string + member list"
  x_tar_extract :: "string \<Rightarrow> nat \<Rightarrow> member \<Rightarrow> string option"
  x_zip_extract :: "string \<Rightarrow> nat \<Rightarrow> member \<Rightarrow> string option"
  x_resolve :: "nat \<Rightarrow> string \<Rightarrow> string"
  x_copy2 :: "string \<Rightarrow> string \<Rightarrow> string option"
  x_stat_size :: "string \<Rightarrow> string + int"
  x_signalled :: "poll \<Rightarrow> bool"

record ExtractionEngine =
  temp_base_dir :: "string option"
  temp_dirs :: "string list"
  p_interrupted :: bool

text \<open>The state of one run of \<open>test_extraction\<close>: the metadata object, the local
  variables the handler looks up, the engine's list of temporary directories, and the
  calls of \<open>extract\<close> and \<open>copy2\<close> made so far.\<close>

record run_state =
  rs_metadata :: ExtractionMetadata
  rs_format_detected :: "string option"
  rs_extraction_path :: "string option"
  rs_temp_dirs :: "string list"
  rs_extract_calls :: "(nat \<times> string) list"
  rs_copies :: "(string \<times> string) list"

type_synonym progress_callback = "(rat \<times> string \<Rightarrow> string option) option"

text \<open>\<open>_check_interrupted\<close> at a poll of the flag: the message it raises, if any.\<close>

definition check_interrupted :: "extract_env \<Rightarrow> ExtractionEngine \<Rightarrow> poll \<Rightarrow> string option" where
  "check_interrupted env eng q =
     (if p_interrupted eng \<or> x_signalled env q then Some ''Extraction interrupted by user''
      else None)"

text \<open>\<open>Path.name\<close> and \<open>Path.suffix\<close>.\<close>

definition path_name :: "string \<Rightarrow> string" where
  "path_name p =
     (case rev (filter (\<lambda>c. c \<noteq> [] \<and> c \<noteq> ''.'') (split_sep (CHR ''/'') p)) of
        [] \<Rightarrow> []
      | c # cs \<Rightarrow> c)"

fun rfind_dot :: "string \<Rightarrow> nat option" where
  "rfind_dot [] = None"
| "rfind_dot (c # cs) =
     (case rfind_dot cs of
        Some i \<Rightarrow> Some (Suc i)
      | None \<Rightarrow> (if c = CHR ''.'' then Some 0 else None))"

definition path_suffix :: "string \<Rightarrow> string" where
  "path_suffix p =
     (let name = path_name p
      in case rfind_dot name of
           None \<Rightarrow> []
         | Some i \<Rightarrow> (if 0 < i \<and> i + 1 < length name then drop i name else []))"

text \<open>\<open>sub in s\<close> on strings.\<close>

fun contains :: "string \<Rightarrow> string \<Rightarrow> bool" where
  "contains sub [] = (sub = [])"
| "contains sub (c # cs) = (startswith (c # cs) sub \<or> contains sub cs)"

text \<open>\<open>os.path.normpath\<close> of \<open>posixpath\<close>: the loop over the components, with
  \<open>initial_slashes\<close> as a truth value, and the function.\<close>

fun normpath_comps :: "bool \<Rightarrow> string list \<Rightarrow> string list \<Rightarrow> string list" where
  "normpath_comps initial_slashes [] new_comps = new_comps"
| "normpath_comps initial_slashes (cmp # comps) new_comps =
     (if cmp = [] \<or> cmp = ''.'' then normpath_comps initial_slashes comps new_comps
      else if cmp \<noteq> ''..'' \<or> (\<not> initial_slashes \<and> new_comps = [])
              \<or> (new_comps \<noteq> [] \<and> last new_comps = ''..'')
        then normpath_comps initial_slashes comps (new_comps @ [cmp])
      else if new_comps \<noteq> [] then normpath_comps initial_slashes comps (butlast new_comps)
      else normpath_comps initial_slashes comps new_comps)"

definition normpath :: "string \<Rightarrow> string" where
  "normpath path =
     (if path = [] then ''.''
      else let initial_slashes =
                 (if startswith path ''/''
                  then (if startswith path ''//'' \<and> \<not> startswith path ''///'' then 2 else 1)
                  else (0::nat));
               comps = normpath_comps (initial_slashes \<noteq> 0) (split_sep (CHR ''/'') path) [];
               path' = replicate initial_slashes (CHR ''/'') @ join_sep ''/'' comps
           in if path' = [] then ''.'' else path')"

text \<open>\<open>extraction_dir / member_path\<close> of \<open>pathlib\<close>.\<close>

definition path_join :: "string \<Rightarrow> string \<Rightarrow> string" where
  "path_join d m =
     (if startswith m ''/'' then m
      else if m = [] \<or> m = ''.'' then d
      else if endswith d ''/'' then d @ m
      else d @ ''/'' @ m)"

definition detect_by_extension :: "string \<Rightarrow> string option" where
  "detect_by_extension name =
     map_option snd (find (\<lambda>ef. endswith (lower name) (lower (fst ef))) SUPPORTED_FORMATS)"

definition detect_by_magic :: "string \<Rightarrow> string option" where
  "detect_by_magic header =
     (case find (\<lambda>mf. startswith header (fst mf)) MAGIC_BYTES of
        None \<Rightarrow> None
      | Some mf \<Rightarrow>
          Some (if snd mf = ''gzip'' then ''tar.gz''
                else if snd mf = ''bzip2'' then ''tar.bz2''
                else if snd mf = ''xz'' then ''tar.xz''
                else snd mf))"

definition detect_format :: "extract_env \<Rightarrow> string \<Rightarrow> string + string" where
  "detect_format env backup_path =
     (case detect_by_extension (path_name backup_path) of
        Some format_type \<Rightarrow> Inr format_type
      | None \<Rightarrow>
          (case (case x_read_header env backup_path of
                   Inl e \<Rightarrow> None
                 | Inr header \<Rightarrow> detect_by_magic header) of
             Some format_type \<Rightarrow> Inr format_type
           | None \<Rightarrow> Inl (''Unsupported or unrecognized format: '' @ backup_path)))"

text \<open>\<open>_validate_path_security\<close> for the member at index \<open>i\<close>.\<close>

definition validate_path_security :: "extract_env \<Rightarrow> nat \<Rightarrow> string \<Rightarrow> string \<Rightarrow> bool" where
  "validate_path_security env i member_path extraction_dir =
     (let member_path' = normpath member_path;
          extraction_dir' = x_resolve env i extraction_dir
      in if contains ''..'' member_path' \<or> startswith member_path' ''/'' then False
         else let full_path = x_resolve env i (path_join extraction_dir' member_path')
              in case relative_to full_path extraction_dir' of
                   Inr rel \<Rightarrow> True
                 | Inl e \<Rightarrow> False)"

text \<open>\<open>_calculate_checksum\<close>: the flag is polled after each chunk.\<close>

fun hash_chunks ::
  "extract_env \<Rightarrow> ExtractionEngine \<Rightarrow> nat \<Rightarrow> string list \<Rightarrow> string option \<Rightarrow> string
     \<Rightarrow> string + string" where
  "hash_chunks env eng i [] read_error acc =
     (case read_error of Some e \<Rightarrow> Inl e | None \<Rightarrow> Inr (x_sha256 env acc))"
| "hash_chunks env eng i (chunk # chunks) read_error acc =
     (case check_interrupted env eng (HashChunk i) of
        Some e \<Rightarrow> Inl e
      | None \<Rightarrow> hash_chunks env eng (Suc i) chunks read_error (acc @ chunk))"

definition calculate_archive_checksum ::
  "extract_env \<Rightarrow> ExtractionEngine \<Rightarrow> string \<Rightarrow> string + string" where
  "calculate_archive_checksum env eng file_path =
     (case x_read_chunks env file_path of
        Inl e \<Rightarrow> Inl e
      | Inr (chunks, read_error) \<Rightarrow> hash_chunks env eng 0 chunks read_error [])"

definition call_back :: "progress_callback \<Rightarrow> rat \<Rightarrow> string \<Rightarrow> string option" where
  "call_back cb progress msg = (case cb of None \<Rightarrow> None | Some f \<Rightarrow> f (progress, msg))"

text \<open>The body of the loop of \<open>_extract_tar\<close> and \<open>_extract_zip\<close> after the two checks:
  the \<open>try\<close> around the library's \<open>extract\<close>, the counters and the callback.\<close>

definition extract_member ::
  "(nat \<Rightarrow> member \<Rightarrow> string option) \<Rightarrow> (member \<Rightarrow> bool) \<Rightarrow> progress_callback \<Rightarrow> nat
     \<Rightarrow> nat \<Rightarrow> member \<Rightarrow> run_state \<Rightarrow> run_state" where
  "extract_member do_extract counts_size cb n i m st =
     (let st1 = st\<lparr> rs_extract_calls := rs_extract_calls st @ [(i, mname m)] \<rparr>;
          failed = (\<lambda>e s. s\<lparr> rs_metadata := (rs_metadata s)\<lparr> md_errors :=
                      md_errors (rs_metadata s) @ [''Failed to extract '' @ mname m @ '': '' @ e] \<rparr> \<rparr>)
      in case do_extract i m of
           Some e \<Rightarrow> failed e st1
         | None \<Rightarrow>
             (let md1 = (rs_metadata st1)\<lparr> extracted_files := extracted_files (rs_metadata st1) + 1 \<rparr>;
                  md2 = (if counts_size m
                         then md1\<lparr> extracted_size := extracted_size md1 + msize m \<rparr> else md1);
                  st2 = st1\<lparr> rs_metadata := md2 \<rparr>
              in case call_back cb (of_nat (i + 1) / of_nat n * 100) (''Extracted: '' @ mname m) of
                   Some e \<Rightarrow> failed e st2
                 | None \<Rightarrow> st2))"

definition add_warning :: "string \<Rightarrow> run_state \<Rightarrow> run_state" where
  "add_warning w st =
     st\<lparr> rs_metadata := (rs_metadata st)\<lparr> md_warnings := md_warnings (rs_metadata st) @ [w] \<rparr> \<rparr>"

text \<open>The loop over the enumerated members; \<open>Inl\<close> is the exception that leaves it.\<close>

fun extract_loop ::
  "extract_env \<Rightarrow> ExtractionEngine \<Rightarrow> (nat \<Rightarrow> member \<Rightarrow> string option) \<Rightarrow> (member \<Rightarrow> bool)
     \<Rightarrow> progress_callback \<Rightarrow> string \<Rightarrow> nat \<Rightarrow> (nat \<times> member) list \<Rightarrow> run_state
     \<Rightarrow> (string + unit) \<times> run_state" where
  "extract_loop env eng do_extract counts_size cb extraction_dir n [] st = (Inr (), st)"
| "extract_loop env eng do_extract counts_size cb extraction_dir n ((i, m) # ims) st =
     (case check_interrupted env eng (MemberBoundary i) of
        Some e \<Rightarrow> (Inl e, st)
      | None \<Rightarrow>
          (if \<not> validate_path_security env i (mname m) extraction_dir
           then extract_loop env eng do_extract counts_size cb extraction_dir n ims
                  (add_warning (''Skipped unsafe path: '' @ mname m) st)
           else if msize m > MAX_EXTRACT_SIZE
           then extract_loop env eng do_extract counts_size cb extraction_dir n ims
                  (add_warning (''Skipped oversized file: '' @ mname m) st)
           else extract_loop env eng do_extract counts_size cb extraction_dir n ims
                  (extract_member do_extract counts_size cb n i m st)))"

text \<open>What both functions do once the archive is open: set the totals, then loop.\<close>

definition extract_all ::
  "extract_env \<Rightarrow> ExtractionEngine \<Rightarrow> (nat \<Rightarrow> member \<Rightarrow> string option) \<Rightarrow> (member \<Rightarrow> bool)
     \<Rightarrow> progress_callback \<Rightarrow> string \<Rightarrow> member list \<Rightarrow> run_state
     \<Rightarrow> (string + unit) \<times> run_state" where
  "extract_all env eng do_extract counts_size cb extraction_dir members st =
     (let md = (rs_metadata st)\<lparr> total_files := int (length members),
                  total_size := sum_list (map msize (filter counts_size members)) \<rparr>
      in extract_loop env eng do_extract counts_size cb extraction_dir (length members)
           (enumerate 0 members) (st\<lparr> rs_metadata := md \<rparr>))"

definition tar_isfile :: "member \<Rightarrow> bool" where
  "tar_isfile m = (mkind m = RegularFile)"

definition zip_not_is_dir :: "member \<Rightarrow> bool" where
  "zip_not_is_dir m = (mkind m \<noteq> Directory)"

definition tar_mode :: "string \<Rightarrow> string" where
  "tar_mode backup_path =
     (let suffix = lower (path_suffix backup_path)
      in if suffix = ''.gz'' \<or> suffix = ''.tgz'' then ''r:gz''
         else if suffix = ''.bz2'' \<or> suffix = ''.tbz2'' then ''r:bz2''
         else if suffix = ''.xz'' then ''r:xz''
         else ''r'')"

definition extract_tar ::
  "extract_env \<Rightarrow> ExtractionEngine \<Rightarrow> string \<Rightarrow> string \<Rightarrow> progress_callback \<Rightarrow> run_state
     \<Rightarrow> (string + unit) \<times> run_state" where
  "extract_tar env eng backup_path extraction_dir cb st =
     (case x_tar_open env backup_path (tar_mode backup_path) of
        Inl e \<Rightarrow> (Inl e, st)
      | Inr members \<Rightarrow>
          extract_all env eng (x_tar_extract env extraction_dir) tar_isfile cb extraction_dir
            members st)"

definition extract_zip ::
  "extract_env \<Rightarrow> ExtractionEngine \<Rightarrow> string \<Rightarrow> string \<Rightarrow> progress_callback \<Rightarrow> run_state
     \<Rightarrow> (string + unit) \<times> run_state" where
  "extract_zip env eng backup_path extraction_dir cb st =
     (case x_zip_open env backup_path of
        Inl e \<Rightarrow> (Inl e, st)
      | Inr members \<Rightarrow>
          extract_all env eng (x_zip_extract env extraction_dir) zip_not_is_dir cb extraction_dir
            members st)"

text \<open>\<open>_extract_qdrant_snapshot\<close>: any exception of the tar extraction starts the
  fallback, which copies the snapshot and overwrites the counters.\<close>

definition extract_qdrant_snapshot ::
  "extract_env \<Rightarrow> ExtractionEngine \<Rightarrow> string \<Rightarrow> string \<Rightarrow> progress_callback \<Rightarrow> run_state
     \<Rightarrow> (string + unit) \<times> run_state" where
  "extract_qdrant_snapshot env eng backup_path extraction_dir cb st =
     (case extract_tar env eng backup_path extraction_dir cb st of
        (Inr u, st1) \<Rightarrow> (Inr u, st1)
      | (Inl e, st1) \<Rightarrow>
          (let target_path = path_join extraction_dir (path_name backup_path);
               st2 = st1\<lparr> rs_copies := rs_copies st1 @ [(backup_path, target_path)] \<rparr>
           in case x_copy2 env backup_path target_path of
                Some e2 \<Rightarrow> (Inl e2, st2)
              | None \<Rightarrow>
                  (let st3 = st2\<lparr> rs_metadata := (rs_metadata st2)\<lparr> total_files := 1,
                                    extracted_files := 1 \<rparr> \<rparr>
                   in case x_stat_size env backup_path of
                        Inl e3 \<Rightarrow> (Inl e3, st3)
                      | Inr sz \<Rightarrow>
                          (let st4 = st3\<lparr> rs_metadata := (rs_metadata st3)\<lparr> total_size := sz,
                                            extracted_size := sz \<rparr> \<rparr>
                           in case call_back cb 100 (''Copied: '' @ path_name backup_path) of
                                Some e4 \<Rightarrow> (Inl e4, st4)
                              | None \<Rightarrow> (Inr (), st4)))))"

text \<open>\<open>_create_secure_temp_dir\<close>: the path, and the engine's list of directories.\<close>

definition create_secure_temp_dir ::
  "extract_env \<Rightarrow> ExtractionEngine \<Rightarrow> run_state \<Rightarrow> (string + string) \<times> run_state" where
  "create_secure_temp_dir env eng st =
     (case x_mkdtemp env (temp_base_dir eng) of
        Inl e \<Rightarrow> (Inl e, st)
      | Inr temp_dir \<Rightarrow>
          (case x_chmod env temp_dir of
             Some e \<Rightarrow> (Inl e, st)
           | None \<Rightarrow> (Inr temp_dir, st\<lparr> rs_temp_dirs := rs_temp_dirs st @ [temp_dir] \<rparr>)))"

text \<open>The \<open>try\<close> block of \<open>test_extraction\<close> up to the dispatch on the format: the
  checks of the input file, the format, the extraction directory, the checksum.
  \<open>Inr\<close> carries the format, the directory and the checksum.\<close>

definition prepare_extraction ::
  "extract_env \<Rightarrow> ExtractionEngine \<Rightarrow> string \<Rightarrow> string option \<Rightarrow> progress_callback \<Rightarrow> run_state
     \<Rightarrow> (string + string \<times> string \<times> string) \<times> run_state" where
  "prepare_extraction env eng backup_path extraction_dir cb st =
     (if \<not> x_exists env backup_path
      then (Inl (''Backup file not found: '' @ backup_path), st)
      else if \<not> x_is_file env backup_path
      then (Inl (''Path is not a file: '' @ backup_path), st)
      else case detect_format env backup_path of
        Inl e \<Rightarrow> (Inl e, st)
      | Inr fmt \<Rightarrow>
          (let st1 = st\<lparr> rs_format_detected := Some fmt \<rparr>;
               dir_result =
                 (case extraction_dir of
                    None \<Rightarrow> (case create_secure_temp_dir env eng st1 of
                               (Inl e, s) \<Rightarrow> (Inl e, s)
                             | (Inr d, s) \<Rightarrow> (Inr d, s\<lparr> rs_extraction_path := Some d \<rparr>))
                  | Some d \<Rightarrow>
                      (let s = st1\<lparr> rs_extraction_path := Some d \<rparr>
                       in case x_mkdir env d of
                            Some e \<Rightarrow> (Inl e, s)
                          | None \<Rightarrow> (Inr d, s)))
           in case dir_result of
                (Inl e, st2) \<Rightarrow> (Inl e, st2)
              | (Inr out_dir, st2) \<Rightarrow>
                  (case call_back cb 0 ''Calculating checksum...'' of
                     Some e \<Rightarrow> (Inl e, st2)
                   | None \<Rightarrow>
                       (case calculate_archive_checksum env eng backup_path of
                          Inl e \<Rightarrow> (Inl e, st2)
                        | Inr original_checksum \<Rightarrow>
                            (case call_back cb 5 ''Starting extraction...'' of
                               Some e \<Rightarrow> (Inl e, st2)
                             | None \<Rightarrow> (Inr (fmt, out_dir, original_checksum), st2))))))"

text \<open>The dispatch on the detected format; \<open>tar_formats\<close> is the list it tests first.\<close>

definition tar_formats :: "string list" where
  "tar_formats = [''tar'', ''tar.gz'', ''tar.bz2'', ''tar.xz'']"

definition dispatch_extraction ::
  "extract_env \<Rightarrow> ExtractionEngine \<Rightarrow> string \<Rightarrow> string \<Rightarrow> string \<Rightarrow> progress_callback \<Rightarrow> run_state
     \<Rightarrow> (string + unit) \<times> run_state" where
  "dispatch_extraction env eng fmt backup_path out_dir cb st =
     (if fmt \<in> set tar_formats
      then extract_tar env eng backup_path out_dir cb st
      else if fmt = ''zip'' then extract_zip env eng backup_path out_dir cb st
      else if fmt = ''qdrant'' then extract_qdrant_snapshot env eng backup_path out_dir cb st
      else (Inl (''Unsupported format: '' @ fmt), st))"

text \<open>The whole \<open>try\<close> block: \<open>Inr\<close> carries what the successful result is built from.\<close>

definition extraction_body ::
  "extract_env \<Rightarrow> ExtractionEngine \<Rightarrow> rat \<Rightarrow> string \<Rightarrow> string option \<Rightarrow> progress_callback
     \<Rightarrow> run_state \<Rightarrow> (string + string \<times> string \<times> string) \<times> run_state" where
  "extraction_body env eng now backup_path extraction_dir cb st =
     (case prepare_extraction env eng backup_path extraction_dir cb st of
        (Inl e, st1) \<Rightarrow> (Inl e, st1)
      | (Inr (fmt, out_dir, original_checksum), st1) \<Rightarrow>
          (case dispatch_extraction env eng fmt backup_path out_dir cb st1 of
             (Inl e, st2) \<Rightarrow> (Inl e, st2)
           | (Inr u, st2) \<Rightarrow>
               (let st3 = st2\<lparr> rs_metadata := (rs_metadata st2)\<lparr> end_time := Some now \<rparr> \<rparr>
                in case call_back cb 100 ''Extraction completed'' of
                     Some e \<Rightarrow> (Inl e, st3)
                   | None \<Rightarrow> (Inr (fmt, out_dir, original_checksum), st3))))"

definition initial_run_state :: "ExtractionEngine \<Rightarrow> rat \<Rightarrow> run_state" where
  "initial_run_state eng t0 =
     \<lparr> rs_metadata = \<lparr> total_files = 0, total_size = 0, extracted_files = 0, extracted_size = 0,
                       start_time = t0, end_time = None, md_errors = [], md_warnings = [] \<rparr>,
       rs_format_detected = None, rs_extraction_path = None, rs_temp_dirs = temp_dirs eng,
       rs_extract_calls = [], rs_copies = [] \<rparr>"

text \<open>\<open>test_extraction\<close>: \<open>t0\<close> is the clock when the metadata object is created, \<open>now\<close>
  the reading that becomes \<open>end_time\<close> (the handler reads the clock again when the last
  callback raises; both readings are \<open>now\<close>). The final state of the run comes with
  the result; its \<open>rs_temp_dirs\<close> is the engine's list afterwards.\<close>

definition test_extraction ::
  "extract_env \<Rightarrow> ExtractionEngine \<Rightarrow> rat \<Rightarrow> rat \<Rightarrow> string \<Rightarrow> string option \<Rightarrow> progress_callback
     \<Rightarrow> ExtractionResult \<times> run_state" where
  "test_extraction env eng t0 now backup_path extraction_dir cb =
     (case extraction_body env eng now backup_path extraction_dir cb (initial_run_state eng t0) of
        (Inr (fmt, out_dir, original_checksum), st) \<Rightarrow>
          (\<lparr> success = True, extraction_path = out_dir, metadata = rs_metadata st,
              format_detected = fmt, file_count = extracted_files (rs_metadata st),
              result_total_size = extracted_size (rs_metadata st),
              checksum = Some original_checksum, error_message = None \<rparr>, st)
      | (Inl err, st) \<Rightarrow>
          (let md = (rs_metadata st)\<lparr> end_time := Some now,
                       md_errors := md_errors (rs_metadata st) @ [err] \<rparr>;
               st' = st\<lparr> rs_metadata := md \<rparr>
           in (\<lparr> success = False,
                  extraction_path = (case rs_extraction_path st of None \<Rightarrow> ''.'' | Some p \<Rightarrow> p),
                  metadata = md,
                  format_detected = (case rs_format_detected st of None \<Rightarrow> ''unknown'' | Some f \<Rightarrow> f),
                  file_count = extracted_files md, result_total_size = extracted_size md,
                  checksum = None, error_message = Some err \<rparr>, st')))"

text \<open>What follows names parts of the behaviour for the statements below. A member
  is accepted when it passes both checks of the loop; a member that is not accepted
  leaves the warning \<open>skip_warning\<close>.\<close>

definition accepted :: "extract_env \<Rightarrow> string \<Rightarrow> nat \<times> member \<Rightarrow> bool" where
  "accepted env extraction_dir im =
     (validate_path_security env (fst im) (mname (snd im)) extraction_dir
      \<and> \<not> msize (snd im) > MAX_EXTRACT_SIZE)"



text \<open>The entry of \<open>rs_extract_calls\<close> for an enumerated member.\<close>

definition call_of :: "nat \<times> member \<Rightarrow> nat \<times> string" where
  "call_of im = (fst im, mname (snd im))"

text \<open>The two path rules of the specification: the normalised member path has a
  parent-directory segment or is absolute, or the resolved destination joined with it
  does not resolve below the resolved destination.\<close>

definition unsafe_member :: "extract_env \<Rightarrow> nat \<Rightarrow> string \<Rightarrow> string \<Rightarrow> bool" where
  "unsafe_member env i member_path extraction_dir =
     (''..'' \<in> set (split_sep (CHR ''/'') (normpath member_path))
      \<or> startswith (normpath member_path) ''/''
      \<or> isl (relative_to
               (x_resolve env i (path_join (x_resolve env i extraction_dir) (normpath member_path)))
               (x_resolve env i extraction_dir)))"






text \<open>The calls of extract added between two states are all for accepted members.\<close>

definition only_accepted :: "extract_env \<Rightarrow> string \<Rightarrow> run_state \<Rightarrow> run_state \<Rightarrow> bool" where
  "only_accepted env extraction_dir st st' =
     (\<exists>ims. rs_extract_calls st' = rs_extract_calls st @ map call_of ims
            \<and> (\<forall>im \<in> set ims. accepted env extraction_dir im))"

text \<open>An example: a zip archive of six members (one with a traversal path, one above
  the size limit, one with two dots in its name, one whose extraction fails); nothing
  opens as tar; \<open>resolve\<close> is the identity; no signal arrives.\<close>

definition example_members :: "member list" where
  "example_members =
     [\<lparr> mname = ''a.txt'', msize = 5, mkind = RegularFile \<rparr>,
      \<lparr> mname = ''../../etc/passwd'', msize = 7, mkind = RegularFile \<rparr>,
      \<lparr> mname = ''big.bin'', msize = 10737418241, mkind = RegularFile \<rparr>,
      \<lparr> mname = ''foo..bar'', msize = 1, mkind = RegularFile \<rparr>,
      \<lparr> mname = ''d/'', msize = 0, mkind = Directory \<rparr>,
      \<lparr> mname = ''bad.txt'', msize = 3, mkind = RegularFile \<rparr>]"

definition example_archive_env :: extract_env where
  "example_archive_env =
     \<lparr> x_exists = (\<lambda>p. True), x_is_file = (\<lambda>p. True),
       x_read_header = (\<lambda>p. Inr ''PK''),
       x_read_chunks = (\<lambda>p. Inr ([''abc'', ''def''], None)),
       x_sha256 = (\<lambda>b. ''sha256:'' @ b),
       x_mkdtemp = (\<lambda>d. Inr ''/tmp/extraction_1''),
       x_chmod = (\<lambda>p. None), x_mkdir = (\<lambda>p. None),
       x_tar_open = (\<lambda>p m. Inl ''file could not be opened successfully''),
       x_zip_open = (\<lambda>p. Inr example_members),
       x_tar_extract = (\<lambda>d i m. None),
       x_zip_extract = (\<lambda>d i m. if mname m = ''bad.txt'' then Some ''No space left on device'' else None),
       x_resolve = (\<lambda>i p. p),
       x_copy2 = (\<lambda>a b. None),
       x_stat_size = (\<lambda>p. Inr 42),
       x_signalled = (\<lambda>q. False) \<rparr>"

definition example_extraction_engine :: ExtractionEngine where
  "example_extraction_engine = \<lparr> temp_base_dir = None, temp_dirs = [], p_interrupted = False \<rparr>"



section \<open>Properties of the progress tracker\<close>

lemma example_tracker_eq:
  "example_tracker = Tracker
     \<lparr> operation_id = ''op'', total_items = 100, mode = SILENT, update_interval = 1 / 10,
       unit_of = ITEMS, p_current_item = 22, p_start_time = Some 0, p_last_update_time = 4,
       p_custom_message = [], p_is_finished = False,
       p_throughput_samples = [(0, 0), (1, 10), (2, 20), (3, 21), (4, 22)] \<rparr> []"
  by (simp add: example_tracker_def update_def update_fields_def start_def start_fields_def
      new_tracker_def record_sample_def max_samples_def Let_def)

lemma lastn_length: "length (lastn n xs) = min n (length xs)"
  by (simp add: lastn_def)

lemma hd_lastn: "xs \<noteq> [] \<Longrightarrow> 0 < n \<Longrightarrow> hd (lastn n xs) = xs ! (length xs - min n (length xs))"
  by (cases "n \<le> length xs") (simp_all add: lastn_def hd_drop_conv_nth hd_conv_nth)

lemma last_lastn: "xs \<noteq> [] \<Longrightarrow> 0 < n \<Longrightarrow> last (lastn n xs) = last xs"
  by (simp add: lastn_def)

lemma calculate_throughput_rate:
  assumes "2 \<le> length (p_throughput_samples s)"
  shows "fst (calculate_throughput s) =
         two_point_rate (rate_base (p_throughput_samples s)) (last (p_throughput_samples s))"
proof -
  let ?ss = "p_throughput_samples s"
  from assms have ne: "?ss \<noteq> []" by auto
  from assms have len: "\<not> length (lastn 3 ?ss) < 2" by (simp add: lastn_length)
  have h: "hd (lastn 3 ?ss) = rate_base ?ss" using ne by (simp add: hd_lastn rate_base_def)
  have l: "last (lastn 3 ?ss) = last ?ss" using ne by (simp add: last_lastn)
  show ?thesis using assms len
    by (simp add: calculate_throughput_def Let_def h l two_point_rate_def)
qed

lemma calculate_throughput_few:
  "length (p_throughput_samples s) < 2 \<Longrightarrow> fst (calculate_throughput s) = None"
  by (simp add: calculate_throughput_def)

lemma calculate_eta_few:
  "length (p_throughput_samples s) < 2 \<Longrightarrow> calculate_eta s = None"
  by (simp add: calculate_eta_def)

lemma calculate_eta_Some:
  assumes "calculate_eta s = Some e"
  shows "\<exists>r. two_point_rate (rate_base (p_throughput_samples s)) (last (p_throughput_samples s)) = Some r
           \<and> 0 < r \<and> e = of_int (total_items s - p_current_item s) / r"
proof -
  let ?ss = "p_throughput_samples s"
  from assms have two: "2 \<le> length ?ss"
    by (simp add: calculate_eta_def split: if_splits)
  then have ne: "?ss \<noteq> []" by auto
  have h: "hd (lastn 3 ?ss) = rate_base ?ss" using ne by (simp add: hd_lastn rate_base_def)
  have l: "last (lastn 3 ?ss) = last ?ss" using ne by (simp add: last_lastn)
  from assms show ?thesis
    by (simp add: calculate_eta_def Let_def h l two_point_rate_def split: if_splits)
qed

lemma record_sample_samples:
  assumes "length (p_throughput_samples s) \<le> max_samples"
  shows "p_throughput_samples (record_sample ct s) =
         lastn max_samples (p_throughput_samples s @ [(ct, p_current_item s)])"
proof (cases "length (p_throughput_samples s) = max_samples")
  case True
  then have "p_throughput_samples s \<noteq> []" by (auto simp: max_samples_def)
  with True show ?thesis
    by (simp add: record_sample_def Let_def lastn_def drop_Suc max_samples_def)
next
  case False
  with assms show ?thesis
    by (simp add: record_sample_def Let_def lastn_def)
qed

lemma record_sample_length:
  "length (p_throughput_samples s) \<le> max_samples \<Longrightarrow>
   length (p_throughput_samples (record_sample ct s)) \<le> max_samples"
  by (simp add: record_sample_samples lastn_length)

lemma get_report_eta: "eta (get_report now t) = calculate_eta (tstate t)"
  by (cases t) (simp add: Let_def)

lemma get_report_throughput: "throughput (get_report now t) = fst (calculate_throughput (tstate t))"
  by (cases t) (simp add: Let_def)



lemma update_samples:
  assumes "length (p_throughput_samples (tstate t)) \<le> max_samples" "p_start_time (tstate t) \<noteq> None"
  shows "p_throughput_samples (tstate (update t0 ct k msg t)) =
         lastn max_samples (p_throughput_samples (tstate t) @
            [(ct, p_current_item (tstate (update t0 ct k msg t)))])"
proof -
  define s3 where "s3 = (let s2 = (tstate t)\<lparr> p_current_item := min (p_current_item (tstate t) + k) (total_items (tstate t)) \<rparr>
     in if msg \<noteq> [] then s2\<lparr> p_custom_message := msg \<rparr> else s2)"
  have u: "tstate (update t0 ct k msg t) = record_sample ct s3"
    using assms(2) by (auto simp add: update_def update_fields_def s3_def Let_def)
  have ss: "p_throughput_samples s3 = p_throughput_samples (tstate t)"
    by (simp add: s3_def Let_def)
  have cur: "p_current_item (record_sample ct s3) = p_current_item s3"
    by (simp add: record_sample_def Let_def)
  show ?thesis using assms(1) by (simp add: u cur record_sample_samples ss)
qed

lemma set_current_samples:
  assumes "length (p_throughput_samples (tstate t)) \<le> max_samples" "p_start_time (tstate t) \<noteq> None"
  shows "p_throughput_samples (tstate (set_current t0 ct k msg t)) =
         lastn max_samples (p_throughput_samples (tstate t) @
            [(ct, p_current_item (tstate (set_current t0 ct k msg t)))])"
proof -
  define s3 where "s3 = (let s2 = (tstate t)\<lparr> p_current_item := min (max 0 k) (total_items (tstate t)) \<rparr>
     in if msg \<noteq> [] then s2\<lparr> p_custom_message := msg \<rparr> else s2)"
  have u: "tstate (set_current t0 ct k msg t) = record_sample ct s3"
    using assms(2) by (auto simp add: set_current_def set_current_fields_def s3_def Let_def)
  have ss: "p_throughput_samples s3 = p_throughput_samples (tstate t)"
    by (simp add: s3_def Let_def)
  have cur: "p_current_item (record_sample ct s3) = p_current_item s3"
    by (simp add: record_sample_def Let_def)
  show ?thesis using assms(1) by (simp add: u cur record_sample_samples ss)
qed

text \<open>
  Claim C3, as the code has it: the throughput and the ETA of \<open>get_report\<close> come from a
  two-point rate between the newest sample and the oldest of the last three retained
  samples (\<open>rate_base\<close>), not the oldest of the buffer. With fewer than two samples
  both are \<open>None\<close>; the ETA is \<open>None\<close> whenever that rate is undefined or not
  positive, and otherwise it is the remaining items divided by the rate. On a started
  tracker \<open>update\<close> and \<open>set_current\<close> append one sample and keep the last
  \<open>max_samples = 10\<close>.
\<close>

theorem C3_rate_from_last_three:
  fixes t :: ProgressTracker
  defines "ss \<equiv> p_throughput_samples (tstate t)"
  defines "rate \<equiv> two_point_rate (rate_base ss) (last ss)"
  shows "(2 \<le> length ss \<longrightarrow> throughput (get_report now t) = rate)
       \<and> (length ss < 2 \<longrightarrow> throughput (get_report now t) = None \<and> eta (get_report now t) = None)
       \<and> (rate = None \<longrightarrow> eta (get_report now t) = None)
       \<and> (\<forall>r. rate = Some r \<and> r \<le> 0 \<longrightarrow> eta (get_report now t) = None)
       \<and> (\<forall>e. eta (get_report now t) = Some e \<longrightarrow>
             (\<exists>r. rate = Some r \<and> 0 < r \<and>
                  e = of_int (total_items (tstate t) - p_current_item (tstate t)) / r))
       \<and> (length ss \<le> max_samples \<and> p_start_time (tstate t) \<noteq> None \<longrightarrow>
            (let t' = update t0 ct k msg t in
               p_throughput_samples (tstate t') =
                 lastn max_samples (ss @ [(ct, p_current_item (tstate t'))])) \<and>
            (let t' = set_current t0 ct k msg t in
               p_throughput_samples (tstate t') =
                 lastn max_samples (ss @ [(ct, p_current_item (tstate t'))])))"
proof -
  have a: "2 \<le> length ss \<longrightarrow> throughput (get_report now t) = rate"
    by (simp add: get_report_throughput ss_def rate_def calculate_throughput_rate)
  have b: "length ss < 2 \<longrightarrow> throughput (get_report now t) = None \<and> eta (get_report now t) = None"
    by (simp add: get_report_throughput get_report_eta ss_def calculate_throughput_few calculate_eta_few)
  have d: "\<forall>e. eta (get_report now t) = Some e \<longrightarrow>
             (\<exists>r. rate = Some r \<and> 0 < r \<and>
                  e = of_int (total_items (tstate t) - p_current_item (tstate t)) / r)"
    using calculate_eta_Some [of "tstate t"] by (simp add: get_report_eta rate_def ss_def)
  have c1: "rate = None \<longrightarrow> eta (get_report now t) = None"
    using d by (cases "eta (get_report now t)") auto
  have c2: "\<forall>r. rate = Some r \<and> r \<le> 0 \<longrightarrow> eta (get_report now t) = None"
    using d by (cases "eta (get_report now t)") auto
  have e: "length ss \<le> max_samples \<and> p_start_time (tstate t) \<noteq> None \<longrightarrow>
            (let t' = update t0 ct k msg t in
               p_throughput_samples (tstate t') =
                 lastn max_samples (ss @ [(ct, p_current_item (tstate t'))])) \<and>
            (let t' = set_current t0 ct k msg t in
               p_throughput_samples (tstate t') =
                 lastn max_samples (ss @ [(ct, p_current_item (tstate t'))]))"
    unfolding Let_def ss_def using update_samples set_current_samples by blast
  from a b c1 c2 d e show ?thesis by blast
qed

theorem C3_rate_from_last_three_witness:
  "throughput (get_report 5 example_tracker) = Some 1
   \<and> eta (get_report 5 example_tracker) = Some 78
   \<and> p_throughput_samples (tstate (update 0 5 1 [] example_tracker))
       = [(0, 0), (1, 10), (2, 20), (3, 21), (4, 22), (5, 23)]
   \<and> eta (get_report 0 (start 0 (new_tracker ''op'' 100 SILENT (1 / 10) ITEMS))) = None"
  using C3_rate_from_last_three [of example_tracker 5 0 5 1 "[]"]
    C3_rate_from_last_three [of "start 0 (new_tracker ''op'' 100 SILENT (1 / 10) ITEMS)" 0 0 0 0 "[]"]
  by (simp add: example_tracker_eq two_point_rate_def rate_base_def max_samples_def lastn_def Let_def
      update_def update_fields_def record_sample_def start_def start_fields_def new_tracker_def
      calculate_eta_def calculate_throughput_def)

text \<open>
  Claim C3 as stated (the rate is taken between the oldest and the newest retained
  sample) fails on the example tracker: its buffer holds five samples, the oldest and
  the newest give 22 items in 4 seconds, and the report says 1 item per second, the
  slope of the last three.
\<close>

theorem C3_oldest_newest_counterexample:
  "throughput (get_report 5 example_tracker) = Some 1 \<and>
   two_point_rate (hd (p_throughput_samples (tstate example_tracker)))
                  (last (p_throughput_samples (tstate example_tracker))) = Some (11 / 2) \<and>
   length (p_throughput_samples (tstate example_tracker)) = 5"
  by (simp add: example_tracker_eq calculate_throughput_def calculate_eta_def lastn_def
      two_point_rate_def Let_def)









section \<open>Properties of the comparison engine\<close>

lemma dict_set_map_fst:
  "map fst (dict_set k v d) = (if k \<in> fst ` set d then map fst d else map fst d @ [k])"
  by (induction d) (auto simp: rev_image_eqI)

lemma dict_set_distinct: "distinct (map fst d) \<Longrightarrow> distinct (map fst (dict_set k v d))"
  by (simp add: dict_set_map_fst)

lemma collect_loop_distinct:
  "distinct (map fst files) \<Longrightarrow> distinct (map fst (collect_loop env eng root_dir items files))"
proof (induction items arbitrary: files)
  case Nil
  then show ?case by simp
next
  case (Cons item items)
  then show ?case
    by (auto simp: Let_def dict_set_distinct split: sum.splits)
qed

lemma collect_files_distinct:
  "collect_files env eng root_dir = Inr files \<Longrightarrow> distinct (dict_keys files)"
  using collect_loop_distinct [of "[]" env eng root_dir]
  by (auto simp: collect_files_def dict_keys_def split: sum.splits)

lemma add_missing_target_fields:
  "files_missing_target (add_missing_target ps r) = files_missing_target r + int (length ps)"
  "files_missing_source (add_missing_target ps r) = files_missing_source r"
  "files_identical (add_missing_target ps r) = files_identical r"
  "files_different (add_missing_target ps r) = files_different r"
  "errors (add_missing_target ps r) = errors r"
  "differences (add_missing_target ps r) = differences r @ map missing_target_diff ps"
  by (induction ps arbitrary: r) simp_all

lemma add_missing_source_fields:
  "files_missing_source (add_missing_source ps r) = files_missing_source r + int (length ps)"
  "files_missing_target (add_missing_source ps r) = files_missing_target r"
  "files_identical (add_missing_source ps r) = files_identical r"
  "files_different (add_missing_source ps r) = files_different r"
  "errors (add_missing_source ps r) = errors r"
  "differences (add_missing_source ps r) = differences r @ map missing_source_diff ps"
  by (induction ps arbitrary: r) simp_all

lemma collect_results_fields:
  "files_missing_source (collect_results env cmode ps r) = files_missing_source r"
  "files_missing_target (collect_results env cmode ps r) = files_missing_target r"
  "errors (collect_results env cmode ps r) = errors r"
  by (induction ps arbitrary: r) (auto simp: Let_def split: prod.splits)

lemma collect_results_differences:
  "differences (collect_results env cmode ps r) =
     differences r @ concat (map (pair_diffs env cmode) ps)"
  by (induction ps arbitrary: r) (auto simp: Let_def pair_diffs_def split: prod.splits)

lemma collect_results_identical:
  "files_identical (collect_results env cmode ps r) =
     files_identical r + int (length (filter (\<lambda>p. pair_diffs env cmode p = []) ps))"
  by (induction ps arbitrary: r) (auto simp: Let_def pair_diffs_def split: prod.splits)

lemma collect_results_different:
  "files_different (collect_results env cmode ps r) =
     files_different r + int (length (filter (\<lambda>p. pair_diffs env cmode p \<noteq> []) ps))"
  by (induction ps arbitrary: r) (auto simp: Let_def pair_diffs_def split: prod.splits)

lemma common_pairs_keys:
  "map fst (common_pairs sf tf) = filter (\<lambda>k. k \<in> set (dict_keys tf)) (dict_keys sf)"
proof (induction sf)
  case Nil
  then show ?case by (simp add: common_pairs_def map_filter_simps dict_keys_def)
next
  case (Cons kv sf)
  have "(map_of tf (fst kv) = None) = (fst kv \<notin> set (dict_keys tf))"
    by (simp add: map_of_eq_None_iff dict_keys_def)
  with Cons show ?case
    by (auto simp: common_pairs_def map_filter_simps dict_keys_def split: option.splits)
qed

lemma common_pairs_length:
  "length (common_pairs sf tf) = length (filter (\<lambda>k. k \<in> set (dict_keys tf)) (dict_keys sf))"
  using common_pairs_keys [of sf tf] by (metis length_map)

lemma content_comparison_ok:
  assumes "parse_mode mode_str = Inr cmode" "path_exists env src" "path_exists env extracted"
    "collect_files env eng src = Inr sf" "collect_files env eng extracted = Inr tf"
  shows "content_comparison env eng t0 t1 src extracted mode_str =
     Inr ((compared env eng src extracted cmode sf tf)
       \<lparr> total_files_processed := int (length (dict_keys sf @
              filter (\<lambda>k. k \<notin> set (dict_keys sf)) (dict_keys tf))),
         total_directories_processed :=
            int (length (filter (is_dir env) (map snd sf)))
            + int (length (filter (is_dir env) (map snd tf))),
         processing_time := t1 - t0 \<rparr>)"
  using assms by (simp add: content_comparison_def Let_def)

lemma content_comparison_cases:
  assumes "content_comparison env eng t0 t1 src extracted mode_str = Inr r"
  shows "(\<exists>cmode sf tf. parse_mode mode_str = Inr cmode \<and> path_exists env src
            \<and> path_exists env extracted \<and> collect_files env eng src = Inr sf
            \<and> collect_files env eng extracted = Inr tf)
         \<or> (\<exists>cmode e. parse_mode mode_str = Inr cmode \<and>
               r = comparison_failed t0 t1 e (initial_result eng src extracted cmode))"
  using assms
  by (auto simp: content_comparison_def Let_def split: sum.splits if_splits)

lemma compared_fields:
  "files_missing_target (compared env eng src extracted cmode sf tf) =
     int (length (filter (\<lambda>k. k \<notin> set (dict_keys tf)) (dict_keys sf)))"
  "files_missing_source (compared env eng src extracted cmode sf tf) =
     int (length (filter (\<lambda>k. k \<notin> set (dict_keys sf)) (dict_keys tf)))"
  "files_identical (compared env eng src extracted cmode sf tf) =
     int (length (filter (\<lambda>p. pair_diffs env cmode p = []) (common_pairs sf tf)))"
  "files_different (compared env eng src extracted cmode sf tf) =
     int (length (filter (\<lambda>p. pair_diffs env cmode p \<noteq> []) (common_pairs sf tf)))"
  "errors (compared env eng src extracted cmode sf tf) = []"
  "differences (compared env eng src extracted cmode sf tf) =
     map missing_target_diff (filter (\<lambda>k. k \<notin> set (dict_keys tf)) (dict_keys sf))
     @ map missing_source_diff (filter (\<lambda>k. k \<notin> set (dict_keys sf)) (dict_keys tf))
     @ concat (map (pair_diffs env cmode) (common_pairs sf tf))"
  by (simp_all add: compared_def Let_def collect_results_fields collect_results_identical
      collect_results_different collect_results_differences add_missing_source_fields
      add_missing_target_fields initial_result_def)

lemma length_filter_split:
  "length (filter P xs) + length (filter (\<lambda>x. \<not> P x) xs) = length xs"
  by (induction xs) auto

lemma card_keys:
  assumes "distinct (S :: string list)" "distinct T"
  shows "length (filter (\<lambda>k. k \<notin> set T) S) = card (set S - set T)"
    "length (filter (\<lambda>k. k \<in> set T) S) = card (set S \<inter> set T)"
    "length (S @ filter (\<lambda>k. k \<notin> set S) T) = card (set S \<union> set T)"
proof -
  have "distinct (filter (\<lambda>k. k \<notin> set T) S)" using assms by simp
  moreover have "set (filter (\<lambda>k. k \<notin> set T) S) = set S - set T" by auto
  ultimately show "length (filter (\<lambda>k. k \<notin> set T) S) = card (set S - set T)"
    by (metis distinct_card)
  have "distinct (filter (\<lambda>k. k \<in> set T) S)" using assms by simp
  moreover have "set (filter (\<lambda>k. k \<in> set T) S) = set S \<inter> set T" by auto
  ultimately show "length (filter (\<lambda>k. k \<in> set T) S) = card (set S \<inter> set T)"
    by (metis distinct_card)
  have "distinct (S @ filter (\<lambda>k. k \<notin> set S) T)" using assms by auto
  moreover have "set (S @ filter (\<lambda>k. k \<notin> set S) T) = set S \<union> set T" by auto
  ultimately show "length (S @ filter (\<lambda>k. k \<notin> set S) T) = card (set S \<union> set T)"
    by (metis distinct_card)
qed

lemma example_collect_src:
  "collect_files example_env example_engine ''/src'' =
     Inr [(''a.txt'', ''/src/a.txt''), (''b.txt'', ''/src/b.txt''), (''d'', ''/src/d'')]"
  by (simp add: collect_files_def example_env_def example_engine_def should_exclude_def
      relative_to_def path_parts_def startswith_def Let_def)

lemma example_collect_tgt:
  "collect_files example_env example_engine ''/tgt'' =
     Inr [(''a.txt'', ''/tgt/a.txt''), (''c.txt'', ''/tgt/c.txt''), (''d'', ''/tgt/d'')]"
  by (simp add: collect_files_def example_env_def example_engine_def should_exclude_def
      relative_to_def path_parts_def startswith_def Let_def)

lemma example_pairs:
  "common_pairs [(''a.txt'', ''/src/a.txt''), (''b.txt'', ''/src/b.txt''), (''d'', ''/src/d'')]
                [(''a.txt'', ''/tgt/a.txt''), (''c.txt'', ''/tgt/c.txt''), (''d'', ''/tgt/d'')]
   = [(''a.txt'', ''/src/a.txt'', ''/tgt/a.txt''), (''d'', ''/src/d'', ''/tgt/d'')]"
  by (simp add: common_pairs_def map_filter_simps)

lemma example_pairs_self:
  "common_pairs [(''a.txt'', ''/src/a.txt''), (''b.txt'', ''/src/b.txt''), (''d'', ''/src/d'')]
                [(''a.txt'', ''/src/a.txt''), (''b.txt'', ''/src/b.txt''), (''d'', ''/src/d'')]
   = [(''a.txt'', ''/src/a.txt'', ''/src/a.txt''), (''b.txt'', ''/src/b.txt'', ''/src/b.txt''),
      (''d'', ''/src/d'', ''/src/d'')]"
  by (simp add: common_pairs_def map_filter_simps)

lemma example_metadata_a:
  "get_file_metadata example_env ''/src/a.txt'' True =
     Inl ''Cannot calculate checksum for /src/a.txt: Permission denied''"
  by (simp add: get_file_metadata_def calculate_checksum_def example_env_def endswith_def Let_def)

lemma example_pair_a:
  "compare_file_pair_body example_env ''/src/a.txt'' t FULL =
     Inl ''Cannot calculate checksum for /src/a.txt: Permission denied''"
  by (simp add: compare_file_pair_body_def example_metadata_a)

lemma example_pair_b:
  "compare_file_pair_body example_env ''/src/b.txt'' ''/src/b.txt'' FULL = Inr ([], 5)"
  by (simp add: compare_file_pair_body_def get_file_metadata_def calculate_checksum_def
      example_env_def endswith_def Let_def compare_metadata_def)

lemma example_pair_d:
  "compare_file_pair_body example_env ''/src/d'' ''/tgt/d'' FULL = Inr ([], 5)"
  "compare_file_pair_body example_env ''/src/d'' ''/src/d'' FULL = Inr ([], 5)"
  by (simp_all add: compare_file_pair_body_def get_file_metadata_def calculate_checksum_def
      example_env_def endswith_def Let_def compare_metadata_def)

lemma example_run:
  "content_comparison example_env example_engine 0 1 ''/src'' ''/tgt'' ''full'' =
     Inr \<lparr> source_path = ''/src'', target_path = ''/tgt'', comparison_mode = FULL,
        total_files_processed = 4, total_directories_processed = 2, files_identical = 1,
        files_different = 1, files_missing_source = 1, files_missing_target = 1,
        differences = [missing_target_diff ''b.txt'', missing_source_diff ''c.txt'', example_error],
        processing_time = 1, total_bytes_processed = 5, excluded_patterns = [], errors = [] \<rparr>"
proof -
  have pm: "parse_mode ''full'' = Inr FULL" by (simp add: parse_mode_def)
  have ex: "path_exists example_env ''/src''" "path_exists example_env ''/tgt''"
    by (simp_all add: example_env_def)
  have dirs: "is_dir example_env = (\<lambda>p. \<not> endswith p ''.txt'')" by (simp add: example_env_def)
  show ?thesis
    unfolding content_comparison_ok [OF pm ex example_collect_src example_collect_tgt]
    by (simp add: compared_def Let_def dict_keys_def example_pairs initial_result_def
        compare_file_pair_def example_pair_a example_pair_d example_error_def dirs endswith_def
        example_engine_def)
qed

lemma example_run_self:
  "content_comparison example_env example_engine 0 1 ''/src'' ''/src'' ''full'' =
     Inr \<lparr> source_path = ''/src'', target_path = ''/src'', comparison_mode = FULL,
        total_files_processed = 3, total_directories_processed = 2, files_identical = 2,
        files_different = 1, files_missing_source = 0, files_missing_target = 0,
        differences = [example_error],
        processing_time = 1, total_bytes_processed = 10, excluded_patterns = [], errors = [] \<rparr>"
proof -
  have pm: "parse_mode ''full'' = Inr FULL" by (simp add: parse_mode_def)
  have ex: "path_exists example_env ''/src''"
    by (simp_all add: example_env_def)
  have dirs: "is_dir example_env = (\<lambda>p. \<not> endswith p ''.txt'')" by (simp add: example_env_def)
  show ?thesis
    unfolding content_comparison_ok [OF pm ex ex example_collect_src example_collect_src]
    by (simp add: compared_def Let_def dict_keys_def example_pairs_self initial_result_def
        compare_file_pair_def example_pair_a example_pair_b example_pair_d example_error_def dirs endswith_def
        example_engine_def)
qed

text \<open>
  Claim C9: when a comparison completes without a top-level error (its error list is
  empty), identical + different + missing-in-source + missing-in-target equals
  \<open>total_files_processed\<close>, which is the number of distinct relative paths in the
  union of the two collected trees: every common path is counted once as identical or
  different, every one-sided path once as missing.
\<close>

theorem C9_counters_partition:
  assumes "content_comparison env eng t0 t1 src extracted mode_str = Inr r"
    and "errors r = []"
  shows "files_identical r + files_different r + files_missing_source r + files_missing_target r
           = total_files_processed r
         \<and> (\<exists>sf tf. collect_files env eng src = Inr sf \<and> collect_files env eng extracted = Inr tf
              \<and> total_files_processed r = int (card (set (dict_keys sf) \<union> set (dict_keys tf)))
              \<and> files_identical r + files_different r
                   = int (card (set (dict_keys sf) \<inter> set (dict_keys tf)))
              \<and> files_missing_target r = int (card (set (dict_keys sf) - set (dict_keys tf)))
              \<and> files_missing_source r = int (card (set (dict_keys tf) - set (dict_keys sf))))"
proof -
  from content_comparison_cases [OF assms(1)] assms(2)
  obtain cmode sf tf where ok: "parse_mode mode_str = Inr cmode" "path_exists env src"
      "path_exists env extracted" "collect_files env eng src = Inr sf"
      "collect_files env eng extracted = Inr tf"
    by (auto simp: comparison_failed_def)
  let ?S = "dict_keys sf" and ?T = "dict_keys tf"
  let ?c = "compared env eng src extracted cmode sf tf"
  have dS: "distinct ?S" and dT: "distinct ?T"
    using ok(4,5) by (simp_all add: collect_files_distinct)
  from content_comparison_ok [OF ok, of t0 t1] assms(1)
  have r: "r = ?c\<lparr> total_files_processed := int (length (?S @ filter (\<lambda>k. k \<notin> set ?S) ?T)),
         total_directories_processed :=
            int (length (filter (is_dir env) (map snd sf)))
            + int (length (filter (is_dir env) (map snd tf))),
         processing_time := t1 - t0 \<rparr>"
    by simp
  have tot: "total_files_processed r = int (card (set ?S \<union> set ?T))"
    using card_keys(3) [OF dS dT] by (simp add: r)
  have mt: "files_missing_target r = int (card (set ?S - set ?T))"
    using card_keys(1) [OF dS dT] by (simp add: r compared_fields)
  have ms: "files_missing_source r = int (card (set ?T - set ?S))"
    using card_keys(1) [OF dT dS] by (simp add: r compared_fields)
  have "files_identical r + files_different r = int (length (common_pairs sf tf))"
    using length_filter_split [of "\<lambda>p. pair_diffs env cmode p = []" "common_pairs sf tf"]
    by (simp add: r compared_fields)
  then have idf: "files_identical r + files_different r = int (card (set ?S \<inter> set ?T))"
    using card_keys(2) [OF dS dT] by (simp add: common_pairs_length)
  have "card (set ?S \<union> set ?T)
      = card (set ?S \<inter> set ?T) + card (set ?T - set ?S) + card (set ?S - set ?T)"
  proof -
    have "set ?S \<union> set ?T = (set ?S \<inter> set ?T) \<union> (set ?T - set ?S) \<union> (set ?S - set ?T)"
      by auto
    moreover have "card ((set ?S \<inter> set ?T) \<union> (set ?T - set ?S) \<union> (set ?S - set ?T))
        = card ((set ?S \<inter> set ?T) \<union> (set ?T - set ?S)) + card (set ?S - set ?T)"
      by (rule card_Un_disjoint) auto
    moreover have "card ((set ?S \<inter> set ?T) \<union> (set ?T - set ?S))
        = card (set ?S \<inter> set ?T) + card (set ?T - set ?S)"
      by (rule card_Un_disjoint) auto
    ultimately show ?thesis by simp
  qed
  with tot mt ms idf have sum: "files_identical r + files_different r + files_missing_source r
      + files_missing_target r = total_files_processed r"
    by simp
  from sum ok(4,5) tot idf mt ms show ?thesis by blast
qed

theorem C9_counters_partition_witness:
  "content_comparison example_env example_engine 0 1 ''/src'' ''/tgt'' ''full'' = Inr example_result
   \<and> errors example_result = []
   \<and> files_identical example_result + files_different example_result
       + files_missing_source example_result + files_missing_target example_result
     = total_files_processed example_result
   \<and> total_files_processed example_result = 4"
proof -
  have run: "content_comparison example_env example_engine 0 1 ''/src'' ''/tgt'' ''full''
      = Inr example_result"
    by (simp add: example_run example_result_def)
  have e: "errors example_result = []" by (simp add: example_result_def)
  from C9_counters_partition [OF run e] run e show ?thesis
    by (simp add: example_result_def)
qed

text \<open>
  Claim C5: the success rate of every returned result is
  \<open>files_identical / total_files_processed * 100\<close>, and exactly 100 when nothing was
  processed; it never raises a division error. Comparing two existing, empty trees
  returns a result with \<open>total_files_processed = 0\<close> and success rate 100.
\<close>

theorem C5_success_rate:
  "(content_comparison env eng t0 t1 src extracted mode_str = Inr r \<longrightarrow>
      success_rate r =
        Inr (if total_files_processed r = 0 then 100
             else of_int (files_identical r) / of_int (total_files_processed r) * 100))
   \<and> (parse_mode mode_str = Inr cmode \<and> path_exists env src \<and> path_exists env extracted
        \<and> rglob env src = Inr [] \<and> rglob env extracted = Inr [] \<longrightarrow>
        (\<exists>r'. content_comparison env eng t0 t1 src extracted mode_str = Inr r'
           \<and> total_files_processed r' = 0 \<and> success_rate r' = Inr 100
           \<and> differences r' = [] \<and> errors r' = []))"
proof -
  have a: "success_rate r =
        Inr (if total_files_processed r = 0 then 100
             else of_int (files_identical r) / of_int (total_files_processed r) * 100)"
    by (simp add: success_rate_def truediv_def)
  have b: "\<exists>r'. content_comparison env eng t0 t1 src extracted mode_str = Inr r'
           \<and> total_files_processed r' = 0 \<and> success_rate r' = Inr 100
           \<and> differences r' = [] \<and> errors r' = []"
    if h: "parse_mode mode_str = Inr cmode" "path_exists env src" "path_exists env extracted"
      "rglob env src = Inr []" "rglob env extracted = Inr []"
  proof -
    have c: "collect_files env eng src = Inr []" "collect_files env eng extracted = Inr []"
      using h by (simp_all add: collect_files_def)
    show ?thesis
      unfolding content_comparison_ok [OF h(1,2,3) c]
      by (simp add: success_rate_def compared_fields dict_keys_def common_pairs_def
          map_filter_simps)
  qed
  from a b show ?thesis by blast
qed

theorem C5_success_rate_witness:
  "content_comparison example_env example_engine 0 1 ''/empty1'' ''/empty2'' ''full'' =
     Inr \<lparr> source_path = ''/empty1'', target_path = ''/empty2'', comparison_mode = FULL,
        total_files_processed = 0, total_directories_processed = 0, files_identical = 0,
        files_different = 0, files_missing_source = 0, files_missing_target = 0,
        differences = [], processing_time = 1, total_bytes_processed = 0,
        excluded_patterns = [], errors = [] \<rparr>
   \<and> success_rate example_result = Inr 25"
proof -
  have run: "content_comparison example_env example_engine 0 1 ''/src'' ''/tgt'' ''full''
      = Inr example_result"
    by (simp add: example_run example_result_def)
  have pm: "parse_mode ''full'' = Inr FULL" by (simp add: parse_mode_def)
  have ex: "path_exists example_env ''/empty1''" "path_exists example_env ''/empty2''"
      "rglob example_env ''/empty1'' = Inr []" "rglob example_env ''/empty2'' = Inr []"
    by (simp_all add: example_env_def)
  have c: "collect_files example_env example_engine ''/empty1'' = Inr []"
     "collect_files example_env example_engine ''/empty2'' = Inr []"
    using ex by (simp_all add: collect_files_def)
  have full: "content_comparison example_env example_engine 0 1 ''/empty1'' ''/empty2'' ''full'' =
     Inr \<lparr> source_path = ''/empty1'', target_path = ''/empty2'', comparison_mode = FULL,
        total_files_processed = 0, total_directories_processed = 0, files_identical = 0,
        files_different = 0, files_missing_source = 0, files_missing_target = 0,
        differences = [], processing_time = 1, total_bytes_processed = 0,
        excluded_patterns = [], errors = [] \<rparr>"
    unfolding content_comparison_ok [OF pm ex(1,2) c]
    by (simp add: compared_def Let_def dict_keys_def initial_result_def common_pairs_def
        map_filter_simps example_engine_def)
  from C5_success_rate [where env = example_env and eng = example_engine and ?t0.0 = 0
      and ?t1.0 = 1 and src = "''/src''" and extracted = "''/tgt''" and mode_str = "''full''"
      and r = example_result]
    C5_success_rate [where env = example_env and eng = example_engine and ?t0.0 = 0
      and ?t1.0 = 1 and src = "''/empty1''" and extracted = "''/empty2''"
      and mode_str = "''full''" and cmode = FULL]
    run pm ex full
  show ?thesis by (simp add: example_result_def)
qed

lemma compare_metadata_self: "compare_metadata env md md FULL = []"
  by (simp add: compare_metadata_def)

lemma compare_file_pair_self:
  assumes "get_file_metadata env p True = Inr md"
  shows "compare_file_pair env k p p FULL = ([], m_size md)"
  using assms
  by (simp add: compare_file_pair_def compare_file_pair_body_def compare_metadata_self)

lemma common_pairs_self:
  assumes "distinct (map fst sf)"
  shows "common_pairs sf sf = map (\<lambda>kv. (fst kv, snd kv, snd kv)) sf"
proof -
  have "\<forall>kv \<in> set sf. map_of sf (fst kv) = Some (snd kv)"
    using assms by simp
  then have "List.map_filter
       (\<lambda>kv. case map_of sf (fst kv) of None \<Rightarrow> None
              | Some target_file \<Rightarrow> Some (fst kv, snd kv, target_file)) xs
       = map (\<lambda>kv. (fst kv, snd kv, snd kv)) xs" if "set xs \<subseteq> set sf" for xs
    using that by (induction xs) (auto simp: map_filter_simps)
  then show ?thesis by (simp add: common_pairs_def)
qed

lemma comparison_failed_clean:
  "differences (comparison_failed t0 t1 e (initial_result eng src extracted cmode)) = []"
  "success_rate (comparison_failed t0 t1 e (initial_result eng src extracted cmode)) = Inr 100"
  by (simp_all add: comparison_failed_def initial_result_def success_rate_def)

text \<open>
  Claim C6, as the code has it: when the metadata of every collected entry of the tree
  can be read (\<open>stat\<close> succeeds and every regular file can be opened for its
  checksum), comparing the tree against itself in \<open>full\<close> mode returns a result with
  no differences and success rate 100.
\<close>

theorem C6_self_comparison_readable_tree:
  assumes "\<forall>files. collect_files env eng T = Inr files \<longrightarrow>
             (\<forall>kv \<in> set files. \<exists>md. get_file_metadata env (snd kv) True = Inr md)"
  shows "\<exists>r. content_comparison env eng t0 t1 T T ''full'' = Inr r
             \<and> differences r = [] \<and> success_rate r = Inr 100"
proof -
  have pm: "parse_mode ''full'' = Inr FULL" by (simp add: parse_mode_def)
  show ?thesis
  proof (cases "path_exists env T")
    case False
    then show ?thesis
      by (simp add: content_comparison_def pm Let_def comparison_failed_clean)
  next
    case ex: True
    show ?thesis
    proof (cases "collect_files env eng T")
      case (Inl e)
      with ex show ?thesis
        by (simp add: content_comparison_def pm Let_def comparison_failed_clean)
    next
      case (Inr sf)
      have d: "distinct (map fst sf)"
        using collect_files_distinct [OF Inr] by (simp add: dict_keys_def)
      have all: "\<forall>kv \<in> set sf. \<exists>md. get_file_metadata env (snd kv) True = Inr md"
        using assms Inr by blast
      have nodiff: "pair_diffs env FULL p = []" if "p \<in> set (common_pairs sf sf)" for p
      proof -
        from that obtain kv where kv: "kv \<in> set sf" "p = (fst kv, snd kv, snd kv)"
          by (auto simp: common_pairs_self [OF d])
        from all kv(1) obtain md where "get_file_metadata env (snd kv) True = Inr md" by blast
        then show ?thesis by (simp add: pair_diffs_def kv(2) compare_file_pair_self)
      qed
      then have f1: "filter (\<lambda>p. pair_diffs env FULL p = []) (common_pairs sf sf) = common_pairs sf sf"
        by (simp add: filter_id_conv)
      have c0: "concat (map (pair_diffs env FULL) (common_pairs sf sf)) = []"
        using nodiff by simp
      have len: "length (common_pairs sf sf) = length sf"
        by (simp add: common_pairs_self [OF d])
      show ?thesis
        unfolding content_comparison_ok [OF pm ex ex Inr Inr]
        by (simp add: compared_fields success_rate_def truediv_def f1 c0 len dict_keys_def)
    qed
  qed
qed

theorem C6_self_comparison_readable_tree_witness:
  "content_comparison example_env example_engine 0 1 ''/tgt'' ''/tgt'' ''full'' =
     Inr \<lparr> source_path = ''/tgt'', target_path = ''/tgt'', comparison_mode = FULL,
        total_files_processed = 3, total_directories_processed = 2, files_identical = 3,
        files_different = 0, files_missing_source = 0, files_missing_target = 0,
        differences = [], processing_time = 1, total_bytes_processed = 15,
        excluded_patterns = [], errors = [] \<rparr>"
proof -
  have md: "\<forall>files. collect_files example_env example_engine ''/tgt'' = Inr files \<longrightarrow>
             (\<forall>kv \<in> set files. \<exists>md. get_file_metadata example_env (snd kv) True = Inr md)"
  proof (intro allI impI ballI)
    fix files kv
    assume "collect_files example_env example_engine ''/tgt'' = Inr files" "kv \<in> set files"
    then have "snd kv \<in> {''/tgt/a.txt'', ''/tgt/c.txt'', ''/tgt/d''}"
      unfolding example_collect_tgt by auto
    then show "\<exists>md. get_file_metadata example_env (snd kv) True = Inr md"
      by (auto simp: get_file_metadata_def calculate_checksum_def example_env_def endswith_def
          Let_def)
  qed
  have pm: "parse_mode ''full'' = Inr FULL" by (simp add: parse_mode_def)
  have ex: "path_exists example_env ''/tgt''" by (simp add: example_env_def)
  have dirs: "is_dir example_env = (\<lambda>p. \<not> endswith p ''.txt'')" by (simp add: example_env_def)
  have pairs: "common_pairs [(''a.txt'', ''/tgt/a.txt''), (''c.txt'', ''/tgt/c.txt''), (''d'', ''/tgt/d'')]
        [(''a.txt'', ''/tgt/a.txt''), (''c.txt'', ''/tgt/c.txt''), (''d'', ''/tgt/d'')]
      = [(''a.txt'', ''/tgt/a.txt'', ''/tgt/a.txt''), (''c.txt'', ''/tgt/c.txt'', ''/tgt/c.txt''),
         (''d'', ''/tgt/d'', ''/tgt/d'')]"
    by (simp add: common_pairs_def map_filter_simps)
  have body: "compare_file_pair_body example_env ''/tgt/a.txt'' ''/tgt/a.txt'' FULL = Inr ([], 5)"
    "compare_file_pair_body example_env ''/tgt/c.txt'' ''/tgt/c.txt'' FULL = Inr ([], 5)"
    "compare_file_pair_body example_env ''/tgt/d'' ''/tgt/d'' FULL = Inr ([], 5)"
    by (simp_all add: compare_file_pair_body_def get_file_metadata_def calculate_checksum_def
      example_env_def endswith_def Let_def compare_metadata_def)
  from C6_self_comparison_readable_tree [OF md, of 0 1]
  obtain r where r: "content_comparison example_env example_engine 0 1 ''/tgt'' ''/tgt'' ''full'' = Inr r"
      "differences r = []"
    by blast
  have "r = \<lparr> source_path = ''/tgt'', target_path = ''/tgt'', comparison_mode = FULL,
        total_files_processed = 3, total_directories_processed = 2, files_identical = 3,
        files_different = 0, files_missing_source = 0, files_missing_target = 0,
        differences = [], processing_time = 1, total_bytes_processed = 15,
        excluded_patterns = [], errors = [] \<rparr>"
    using r unfolding content_comparison_ok [OF pm ex ex example_collect_tgt example_collect_tgt]
    by (simp add: compared_def Let_def dict_keys_def pairs initial_result_def
        compare_file_pair_def body dirs endswith_def example_engine_def)
  with r(1) show ?thesis by simp
qed

text \<open>
  Claim C6 as stated (for every tree) fails on the tree \<open>/src\<close>, whose file \<open>a.txt\<close>
  cannot be opened: the checksum raises on both sides, the pair is reported as a
  content mismatch, and the success rate is 200/3 percent.
\<close>

theorem C6_unreadable_file_counterexample:
  "content_comparison example_env example_engine 0 1 ''/src'' ''/src'' ''full''
     = Inr example_self_result
   \<and> differences example_self_result = [example_error]
   \<and> success_rate example_self_result = Inr (200 / 3)"
  by (simp add: example_run_self example_self_result_def success_rate_def truediv_def)

text \<open>
  Claim C2, as the code has it: when the comparison of a common pair raises,
  \<open>compare_file_pair\<close> catches the exception itself and the completed result holds the
  synthetic content-mismatch difference for that pair, which counts as different; the
  error list gets no entry. The run completes and covers every common pair: each is
  counted once and its differences are in the result.
\<close>

theorem C2_pair_exception_is_difference_only:
  assumes "parse_mode mode_str = Inr cmode" "path_exists env src" "path_exists env extracted"
    "collect_files env eng src = Inr sf" "collect_files env eng extracted = Inr tf"
    and "(k, sp, tp) \<in> set (common_pairs sf tf)"
    and "compare_file_pair_body env sp tp cmode = Inl e"
  shows "\<exists>r. content_comparison env eng t0 t1 src extracted mode_str = Inr r
           \<and> comparison_error k e \<in> set (differences r)
           \<and> errors r = []
           \<and> 1 \<le> files_different r
           \<and> files_identical r + files_different r = int (length (common_pairs sf tf))
           \<and> (\<forall>p \<in> set (common_pairs sf tf). set (pair_diffs env cmode p) \<subseteq> set (differences r))"
proof -
  let ?c = "compared env eng src extracted cmode sf tf"
  have pd: "pair_diffs env cmode (k, sp, tp) = [comparison_error k e]"
    using assms(7) by (simp add: pair_diffs_def compare_file_pair_def)
  have mem: "comparison_error k e \<in> set (differences ?c)"
    using assms(6) pd by (force simp add: compared_fields)
  have "(k, sp, tp) \<in> set (filter (\<lambda>p. pair_diffs env cmode p \<noteq> []) (common_pairs sf tf))"
    using assms(6) pd by simp
  then have "filter (\<lambda>p. pair_diffs env cmode p \<noteq> []) (common_pairs sf tf) \<noteq> []"
    by (metis empty_iff empty_set)
  then have one: "1 \<le> files_different ?c"
    by (cases "filter (\<lambda>p. pair_diffs env cmode p \<noteq> []) (common_pairs sf tf)")
       (simp_all add: compared_fields)
  have cover: "files_identical ?c + files_different ?c = int (length (common_pairs sf tf))"
    using length_filter_split [of "\<lambda>p. pair_diffs env cmode p = []" "common_pairs sf tf"]
    by (simp add: compared_fields)
  have sub: "\<forall>p \<in> set (common_pairs sf tf). set (pair_diffs env cmode p) \<subseteq> set (differences ?c)"
    by (auto simp: compared_fields)
  show ?thesis
    unfolding content_comparison_ok [OF assms(1-5)]
    using mem one cover sub by (simp add: compared_fields)
qed

theorem C2_pair_exception_is_difference_only_witness:
  "content_comparison example_env example_engine 0 1 ''/src'' ''/tgt'' ''full'' = Inr example_result
   \<and> example_error \<in> set (differences example_result)
   \<and> errors example_result = []
   \<and> files_identical example_result + files_different example_result = 2"
proof -
  have pm: "parse_mode ''full'' = Inr FULL" by (simp add: parse_mode_def)
  have ex: "path_exists example_env ''/src''" "path_exists example_env ''/tgt''"
    by (simp_all add: example_env_def)
  have p: "(''a.txt'', ''/src/a.txt'', ''/tgt/a.txt'') \<in> set (common_pairs
      [(''a.txt'', ''/src/a.txt''), (''b.txt'', ''/src/b.txt''), (''d'', ''/src/d'')]
      [(''a.txt'', ''/tgt/a.txt''), (''c.txt'', ''/tgt/c.txt''), (''d'', ''/tgt/d'')])"
    by (simp add: example_pairs)
  from C2_pair_exception_is_difference_only [OF pm ex example_collect_src example_collect_tgt p
      example_pair_a, of 0 1]
  show ?thesis
    by (simp add: example_run example_result_def example_error_def)
qed

text \<open>
  Claim C2 as stated (the exception is also an entry of \<open>errors\<close>) fails on the example
  trees: the comparison of \<open>a.txt\<close> raises, and the error list of the result is empty.
\<close>

theorem C2_no_errors_entry_counterexample:
  "compare_file_pair_body example_env ''/src/a.txt'' ''/tgt/a.txt'' FULL
     = Inl ''Cannot calculate checksum for /src/a.txt: Permission denied''
   \<and> content_comparison example_env example_engine 0 1 ''/src'' ''/tgt'' ''full''
     = Inr example_result
   \<and> errors example_result = []"
  by (simp add: example_pair_a example_run example_result_def)

section \<open>Properties of the extraction engine\<close>








lemma contains_append: "contains sub (pre @ sub @ post)"
proof (induction pre)
  case Nil
  show ?case
  proof (cases "sub @ post")
    case Nil
    then show ?thesis by simp
  next
    case (Cons a list)
    have "take (length sub) (sub @ post) = sub" by simp
    then have "startswith (a # list) sub" by (simp add: startswith_def Cons)
    then show ?thesis by (simp add: Cons)
  qed
next
  case (Cons c pre)
  then show ?case by simp
qed

lemma split_sep_nonempty: "split_sep c s \<noteq> []"
  by (induction s) (auto split: list.splits)

lemma split_sep_member:
  "w \<in> set (split_sep c s) \<Longrightarrow> \<exists>pre post. s = pre @ w @ post"
proof (induction s arbitrary: w)
  case Nil
  then show ?case by simp
next
  case (Cons x xs)
  show ?case
  proof (cases "x = c")
    case True
    with Cons.prems have "w = [] \<or> w \<in> set (split_sep c xs)" by auto
    then show ?thesis
    proof
      assume "w = []"
      then have "x # xs = [] @ w @ (x # xs)" by simp
      then show ?thesis by blast
    next
      assume "w \<in> set (split_sep c xs)"
      from Cons.IH [OF this] obtain pre post where "xs = pre @ w @ post" by blast
      then have "x # xs = (x # pre) @ w @ post" by simp
      then show ?thesis by blast
    qed
  next
    case False
    obtain v vs where sp: "split_sep c xs = v # vs"
      using split_sep_nonempty [of c xs] by (cases "split_sep c xs") auto
    have hd_pre: "\<exists>post. xs = v @ post"
    proof -
      have "\<And>v vs. split_sep c ys = v # vs \<Longrightarrow> \<exists>post. ys = v @ post" for ys
      proof (induction ys)
        case Nil
        then show ?case by simp
      next
        case (Cons y ys)
        show ?case
        proof (cases "y = c")
          case True
          with Cons.prems show ?thesis by auto
        next
          case False
          obtain u us where u: "split_sep c ys = u # us"
            using split_sep_nonempty [of c ys] by (cases "split_sep c ys") auto
          from Cons.IH [OF u] obtain post where "ys = u @ post" by blast
          with False Cons.prems u show ?thesis by auto
        qed
      qed
      from this [OF sp] show ?thesis .
    qed
    from False sp Cons.prems have "w = x # v \<or> w \<in> set vs" by auto
    then show ?thesis
    proof
      assume w: "w = x # v"
      from hd_pre obtain post where "xs = v @ post" by blast
      then have "x # xs = [] @ w @ post" by (simp add: w)
      then show ?thesis by blast
    next
      assume "w \<in> set vs"
      then have "w \<in> set (split_sep c xs)" by (simp add: sp)
      from Cons.IH [OF this] obtain pre post where "xs = pre @ w @ post" by blast
      then have "x # xs = (x # pre) @ w @ post" by simp
      then show ?thesis by blast
    qed
  qed
qed

lemma segment_contains: "w \<in> set (split_sep c s) \<Longrightarrow> contains w s"
  using split_sep_member [of w c s] contains_append by metis


lemma validate_rejects_unsafe:
  "unsafe_member env i member_path extraction_dir \<Longrightarrow>
     \<not> validate_path_security env i member_path extraction_dir"
  unfolding unsafe_member_def
  by (auto simp: validate_path_security_def Let_def segment_contains split: sum.splits)

lemma not_accepted_unsafe:
  "unsafe_member env (fst im) (mname (snd im)) dir \<Longrightarrow> \<not> accepted env dir im"
  by (simp add: accepted_def validate_rejects_unsafe)











lemma only_accepted_calls_eq:
  "only_accepted env dir st st' \<Longrightarrow> rs_extract_calls st'' = rs_extract_calls st'
     \<Longrightarrow> only_accepted env dir st st''"
  by (simp add: only_accepted_def)
























lemma example_zip_run: "fst (test_extraction example_archive_env example_extraction_engine 0 1 ''/b/x.zip'' (Some ''/out'') None)
  = \<lparr>success = True, extraction_path = ''/out'',
     metadata =
       \<lparr>total_files = 6, total_size = 10737418257, extracted_files = 2,
          extracted_size = 5, start_time = 0, end_time = Some 1,
          md_errors = [''Failed to extract bad.txt: No space left on device''],
          md_warnings =
            [''Skipped unsafe path: ../../etc/passwd'',
             ''Skipped oversized file: big.bin'',
             ''Skipped unsafe path: foo..bar'']\<rparr>,
     format_detected = ''zip'', file_count = 2, result_total_size = 5,
     checksum = Some ''sha256:abcdef'', error_message = None\<rparr>"
  by code_simp




























end
